theory Spec2Isabelle
  imports Main "HOL-Library.Word" "HOL-Library.AList"
begin

unbundle bit_operations_syntax

section \<open>Python values\<close>

text \<open>
  A Python \<open>str\<close> is a sequence of Unicode code points, so \<open>len\<close> and slicing count
  code points; \<open>bytes\<close> is a sequence of octets. String literals of the source are
  written \<open>lit ''...''\<close>; literals outside ASCII (the emoji of the titles) are given by
  their code points.
\<close>

type_synonym codepoint = nat
type_synonym str = "codepoint list"
type_synonym byte = "8 word"
type_synonym bytes = "byte list"
type_synonym u32 = "32 word"

definition lit :: "string \<Rightarrow> str" where
  "lit cs = map of_char cs"

text \<open>The exception classes that the modelled code can raise.\<close>

datatype pyerr = AttributeError | TypeError | KeyError | IndexError | UnicodeEncodeError

text \<open>\<open>s.startswith(p)\<close> and \<open>sep.join(xs)\<close> on strings.\<close>

definition startswith :: "str \<Rightarrow> str \<Rightarrow> bool" where
  "startswith s p = (take (length p) s = p)"

fun join :: "str \<Rightarrow> str list \<Rightarrow> str" where
  "join sep [] = []"
| "join sep [x] = x"
| "join sep (x # y # ys) = x @ sep @ join sep (y # ys)"

text \<open>
  \<open>s.replace(old, new)\<close>: every non-overlapping occurrence of \<open>old\<close>, scanning from the
  left, is replaced. For an empty \<open>old\<close> Python inserts \<open>new\<close> before every character
  and at the end.
\<close>

function py_replace :: "str \<Rightarrow> str \<Rightarrow> str \<Rightarrow> str" where
  "py_replace old new s =
     (if old = [] then new @ concat (map (\<lambda>c. c # new) s)
      else if s = [] then []
      else if startswith s old then new @ py_replace old new (drop (length old) s)
      else hd s # py_replace old new (tl s))"
  by pat_completeness auto
termination
  by (relation "measure (\<lambda>(old, new, s). length s)") auto

declare py_replace.simps [simp del]

text \<open>
  \<open>s.encode('utf-8')\<close>. A lone surrogate cannot be encoded (UnicodeEncodeError); numbers
  from \<open>0x110000\<close> on are not code points, and are rejected as well.
\<close>

definition utf8_char :: "codepoint \<Rightarrow> pyerr + bytes" where
  "utf8_char c =
     (if c < 0x80 then Inr [of_nat c]
      else if c < 0x800 then Inr [of_nat (0xC0 + c div 64), of_nat (0x80 + c mod 64)]
      else if 0xD800 \<le> c \<and> c < 0xE000 then Inl UnicodeEncodeError
      else if c < 0x10000 then
        Inr [of_nat (0xE0 + c div 4096), of_nat (0x80 + c div 64 mod 64), of_nat (0x80 + c mod 64)]
      else if c < 0x110000 then
        Inr [of_nat (0xF0 + c div 262144), of_nat (0x80 + c div 4096 mod 64),
             of_nat (0x80 + c div 64 mod 64), of_nat (0x80 + c mod 64)]
      else Inl UnicodeEncodeError)"

fun utf8_encode :: "str \<Rightarrow> pyerr + bytes" where
  "utf8_encode [] = Inr []"
| "utf8_encode (c # cs) =
     (case utf8_char c of
        Inl e \<Rightarrow> Inl e
      | Inr bs \<Rightarrow> (case utf8_encode cs of Inl e \<Rightarrow> Inl e | Inr rest \<Rightarrow> Inr (bs @ rest)))"

section \<open>SHA-256 and HMAC (\<open>hashlib.sha256\<close>, \<open>hmac.new\<close>)\<close>

text \<open>
  The signature check calls \<open>hmac.new(key, msg, hashlib.sha256).hexdigest()\<close>. Both are
  library functions with a public definition (FIPS 180-4 and RFC 2104); they are written
  out here on 32-bit words so that the check can be evaluated.
\<close>

definition rotr :: "nat \<Rightarrow> u32 \<Rightarrow> u32" where
  "rotr n x = drop_bit n x OR push_bit (32 - n) x"

definition Ch :: "u32 \<Rightarrow> u32 \<Rightarrow> u32 \<Rightarrow> u32" where
  "Ch x y z = (x AND y) XOR (NOT x AND z)"

definition Maj :: "u32 \<Rightarrow> u32 \<Rightarrow> u32 \<Rightarrow> u32" where
  "Maj x y z = (x AND y) XOR (x AND z) XOR (y AND z)"

definition bsig0 :: "u32 \<Rightarrow> u32" where
  "bsig0 x = rotr 2 x XOR rotr 13 x XOR rotr 22 x"

definition bsig1 :: "u32 \<Rightarrow> u32" where
  "bsig1 x = rotr 6 x XOR rotr 11 x XOR rotr 25 x"

definition ssig0 :: "u32 \<Rightarrow> u32" where
  "ssig0 x = rotr 7 x XOR rotr 18 x XOR drop_bit 3 x"

definition ssig1 :: "u32 \<Rightarrow> u32" where
  "ssig1 x = rotr 17 x XOR rotr 19 x XOR drop_bit 10 x"

text \<open>The 64 round constants, four to a row.\<close>

definition sha256_K :: "u32 list" where
  "sha256_K = concat
     [[0x428a2f98, 0x71374491, 0xb5c0fbcf, 0xe9b5dba5],
      [0x3956c25b, 0x59f111f1, 0x923f82a4, 0xab1c5ed5],
      [0xd807aa98, 0x12835b01, 0x243185be, 0x550c7dc3],
      [0x72be5d74, 0x80deb1fe, 0x9bdc06a7, 0xc19bf174],
      [0xe49b69c1, 0xefbe4786, 0x0fc19dc6, 0x240ca1cc],
      [0x2de92c6f, 0x4a7484aa, 0x5cb0a9dc, 0x76f988da],
      [0x983e5152, 0xa831c66d, 0xb00327c8, 0xbf597fc7],
      [0xc6e00bf3, 0xd5a79147, 0x06ca6351, 0x14292967],
      [0x27b70a85, 0x2e1b2138, 0x4d2c6dfc, 0x53380d13],
      [0x650a7354, 0x766a0abb, 0x81c2c92e, 0x92722c85],
      [0xa2bfe8a1, 0xa81a664b, 0xc24b8b70, 0xc76c51a3],
      [0xd192e819, 0xd6990624, 0xf40e3585, 0x106aa070],
      [0x19a4c116, 0x1e376c08, 0x2748774c, 0x34b0bcb5],
      [0x391c0cb3, 0x4ed8aa4a, 0x5b9cca4f, 0x682e6ff3],
      [0x748f82ee, 0x78a5636f, 0x84c87814, 0x8cc70208],
      [0x90befffa, 0xa4506ceb, 0xbef9a3f7, 0xc67178f2]]"

definition sha256_H0 :: "u32 list" where
  "sha256_H0 = [0x6a09e667, 0xbb67ae85, 0x3c6ef372, 0xa54ff53a,
                0x510e527f, 0x9b05688c, 0x1f83d9ab, 0x5be0cd19]"

text \<open>Four octets, most significant first, make a word; and back.\<close>

definition be32 :: "byte \<Rightarrow> byte \<Rightarrow> byte \<Rightarrow> byte \<Rightarrow> u32" where
  "be32 a b c d =
     push_bit 24 (ucast a) OR push_bit 16 (ucast b) OR push_bit 8 (ucast c) OR ucast d"

definition be32_bytes :: "u32 \<Rightarrow> bytes" where
  "be32_bytes w = [ucast (drop_bit 24 w), ucast (drop_bit 16 w), ucast (drop_bit 8 w), ucast w]"

fun words_of :: "bytes \<Rightarrow> u32 list" where
  "words_of (a # b # c # d # rest) = be32 a b c d # words_of rest"
| "words_of _ = []"

text \<open>
  Padding: the octet \<open>0x80\<close>, zeros up to 56 modulo 64, then the bit length of the
  message as a 64-bit big-endian number.
\<close>

definition sha256_pad :: "bytes \<Rightarrow> bytes" where
  "sha256_pad m =
     (let n = length m;
          z = (119 - n mod 64) mod 64;
          bits = (word_of_nat (8 * n) :: 64 word)
      in m @ [0x80] @ replicate z 0 @
         map (\<lambda>i. ucast (drop_bit (8 * (7 - i)) bits)) [0..<8])"

fun schedule :: "nat \<Rightarrow> u32 list \<Rightarrow> u32 list" where
  "schedule 0 ws = ws"
| "schedule (Suc n) ws =
     (let t = length ws
      in schedule n
           (ws @ [ssig1 (ws ! (t - 2)) + ws ! (t - 7) + ssig0 (ws ! (t - 15)) + ws ! (t - 16)]))"

type_synonym sha_state = "u32 \<times> u32 \<times> u32 \<times> u32 \<times> u32 \<times> u32 \<times> u32 \<times> u32"

fun sha_round :: "sha_state \<Rightarrow> u32 \<times> u32 \<Rightarrow> sha_state" where
  "sha_round (a, b, c, d, e, f, g, h) (k, w) =
     (let t1 = h + bsig1 e + Ch e f g + k + w;
          t2 = bsig0 a + Maj a b c
      in (t1 + t2, a, b, c, d + t1, e, f, g))"

fun compress :: "u32 list \<Rightarrow> u32 list \<Rightarrow> u32 list" where
  "compress [h0, h1, h2, h3, h4, h5, h6, h7] blk =
     (case foldl sha_round (h0, h1, h2, h3, h4, h5, h6, h7) (zip sha256_K (schedule 48 blk)) of
        (a, b, c, d, e, f, g, h) \<Rightarrow>
          [h0 + a, h1 + b, h2 + c, h3 + d, h4 + e, h5 + f, h6 + g, h7 + h])"
| "compress hs blk = hs"

fun sha_blocks :: "u32 list \<Rightarrow> u32 list \<Rightarrow> u32 list" where
  "sha_blocks hs ws =
     (if length ws < 16 then hs else sha_blocks (compress hs (take 16 ws)) (drop 16 ws))"

declare sha_blocks.simps [simp del]

definition sha256 :: "bytes \<Rightarrow> bytes" where
  "sha256 m = concat (map be32_bytes (sha_blocks sha256_H0 (words_of (sha256_pad m))))"

text \<open>
  \<open>hmac.new(key, msg, sha256).digest()\<close>: a key longer than the block size of 64 octets
  is hashed first; the key is then filled with zero octets up to 64.
\<close>

definition hmac_key_block :: "bytes \<Rightarrow> bytes" where
  "hmac_key_block key =
     (let k = (if length key > 64 then sha256 key else key)
      in k @ replicate (64 - length k) 0)"

definition hmac_sha256 :: "bytes \<Rightarrow> bytes \<Rightarrow> bytes" where
  "hmac_sha256 key msg =
     (let kb = hmac_key_block key
      in sha256 (map (\<lambda>b. b XOR 0x5c) kb @ sha256 (map (\<lambda>b. b XOR 0x36) kb @ msg)))"

text \<open>\<open>hexdigest()\<close>: two lower-case hexadecimal digits for each octet.\<close>

definition hexchar :: "byte \<Rightarrow> codepoint" where
  "hexchar n = (if n < 10 then 48 + unat n else 87 + unat n)"

definition hexdigest :: "bytes \<Rightarrow> str" where
  "hexdigest bs = concat (map (\<lambda>b. [hexchar (drop_bit 4 b), hexchar (b AND 15)]) bs)"

text \<open>
  \<open>hmac.compare_digest(a, b)\<close> on two \<open>str\<close>: a TypeError when either contains a
  character outside ASCII, else whether they are equal.
\<close>

definition compare_digest :: "str \<Rightarrow> str \<Rightarrow> pyerr + bool" where
  "compare_digest a b =
     (if list_all (\<lambda>c. c < 128) a \<and> list_all (\<lambda>c. c < 128) b then Inr (a = b)
      else Inl TypeError)"

section \<open>The signature verifier (\<open>webhook_server.verify_github_signature\<close>)\<close>

text \<open>
  The first argument is \<open>config.GITHUB_WEBHOOK_SECRET\<close>, which the source reads from the
  configuration object. The \<open>try\<close> block covers the encoding of the secret, the HMAC
  and the comparison; every exception raised there gives \<open>False\<close>.
\<close>

definition verify_github_signature :: "str \<Rightarrow> bytes \<Rightarrow> str \<Rightarrow> bool" where
  "verify_github_signature secret payload signature =
     (if secret = [] then True
      else if \<not> startswith signature (lit ''sha256='') then False
      else (case utf8_encode secret of
              Inl e \<Rightarrow> False
            | Inr key \<Rightarrow>
                (let expected_signature = hexdigest (hmac_sha256 key payload);
                     received_signature = drop 7 signature
                 in case compare_digest expected_signature received_signature of
                      Inl e \<Rightarrow> False
                    | Inr r \<Rightarrow> r)))"

section \<open>Decoded JSON and the operations the renderers use on it\<close>

text \<open>
  \<open>json.loads\<close> gives \<open>None\<close>, \<open>bool\<close>, \<open>int\<close>, \<open>float\<close>, \<open>str\<close>, \<open>list\<close> and
  \<open>dict\<close> with string keys. A float is kept as its 64 bits; a dict is an association
  list read with \<open>map_of\<close>. The renderers take the payload as \<open>Dict[str, Any]\<close> and check
  no types, so every operation says what Python does on each kind of value.
\<close>

datatype json =
    JNull
  | JBool bool
  | JInt int
  | JFloat "64 word"
  | JStr str
  | JList "json list"
  | JDict "(str \<times> json) list"

text \<open>
  Two library functions are parameters of the model: \<open>repr_of\<close> is \<open>str(v)\<close> for floats,
  lists and dicts, and \<open>title_of\<close> is \<open>str.title\<close>, which depends on the Unicode
  character tables. Nothing is assumed about either.
\<close>

record pylib =
  repr_of :: "json \<Rightarrow> str"
  title_of :: "str \<Rightarrow> str"

definition seq :: "pyerr + 'a \<Rightarrow> ('a \<Rightarrow> pyerr + 'b) \<Rightarrow> pyerr + 'b" where
  "seq r f = (case r of Inl e \<Rightarrow> Inl e | Inr v \<Rightarrow> f v)"

fun map_err :: "('a \<Rightarrow> pyerr + 'b) \<Rightarrow> 'a list \<Rightarrow> pyerr + 'b list" where
  "map_err f [] = Inr []"
| "map_err f (x # xs) = seq (f x) (\<lambda>y. seq (map_err f xs) (\<lambda>ys. Inr (y # ys)))"

text \<open>\<open>d.get(key, default)\<close>; only a dict has the method.\<close>

definition py_get :: "json \<Rightarrow> str \<Rightarrow> json \<Rightarrow> pyerr + json" where
  "py_get d key dflt =
     (case d of
        JDict kvs \<Rightarrow> (case map_of kvs key of Some v \<Rightarrow> Inr v | None \<Rightarrow> Inr dflt)
      | _ \<Rightarrow> Inl AttributeError)"

text \<open>Truth value, as tested by \<open>if x:\<close>.\<close>

fun py_truthy :: "json \<Rightarrow> bool" where
  "py_truthy JNull = False"
| "py_truthy (JBool b) = b"
| "py_truthy (JInt i) = (i \<noteq> 0)"
| "py_truthy (JFloat w) = (w AND 0x7FFFFFFFFFFFFFFF \<noteq> 0)"
| "py_truthy (JStr s) = (s \<noteq> [])"
| "py_truthy (JList xs) = (xs \<noteq> [])"
| "py_truthy (JDict kvs) = (kvs \<noteq> [])"

text \<open>\<open>len(x)\<close>.\<close>

fun py_len :: "json \<Rightarrow> pyerr + nat" where
  "py_len (JStr s) = Inr (length s)"
| "py_len (JList xs) = Inr (length xs)"
| "py_len (JDict kvs) = Inr (length (remdups (map fst kvs)))"
| "py_len _ = Inl TypeError"

text \<open>Decimal digits of a number, and \<open>str(x)\<close> (also what an f-string writes for \<open>{x}\<close>).\<close>

fun str_of_nat :: "nat \<Rightarrow> str" where
  "str_of_nat n = (if n < 10 then [48 + n] else str_of_nat (n div 10) @ [48 + n mod 10])"

declare str_of_nat.simps [simp del]

definition py_str :: "pylib \<Rightarrow> json \<Rightarrow> str" where
  "py_str lib v =
     (case v of
        JStr s \<Rightarrow> s
      | JInt i \<Rightarrow> (if i < 0 then 45 # str_of_nat (nat (- i)) else str_of_nat (nat i))
      | JBool b \<Rightarrow> (if b then lit ''True'' else lit ''False'')
      | JNull \<Rightarrow> lit ''None''
      | _ \<Rightarrow> repr_of lib v)"

text \<open>\<open>x.title()\<close>, \<open>x.startswith(p)\<close> and \<open>x.replace(old, new)\<close> exist on \<open>str\<close> only.\<close>

definition py_title :: "pylib \<Rightarrow> json \<Rightarrow> pyerr + str" where
  "py_title lib v = (case v of JStr s \<Rightarrow> Inr (title_of lib s) | _ \<Rightarrow> Inl AttributeError)"

text \<open>
  \<open>x[-1]\<close> on a value that has passed \<open>if x:\<close>. The keys of a decoded dict are strings,
  so \<open>-1\<close> is never among them.
\<close>

definition py_last :: "json \<Rightarrow> pyerr + json" where
  "py_last v =
     (case v of
        JList xs \<Rightarrow> (if xs = [] then Inl IndexError else Inr (last xs))
      | JStr s \<Rightarrow> (if s = [] then Inl IndexError else Inr (JStr [last s]))
      | JDict kvs \<Rightarrow> Inl KeyError
      | _ \<Rightarrow> Inl TypeError)"

text \<open>
  \<open>x[:n]\<close>. Slicing a dict raises (a TypeError up to Python 3.11, where a slice cannot
  be hashed).
\<close>

definition py_slice_to :: "nat \<Rightarrow> json \<Rightarrow> pyerr + json" where
  "py_slice_to n v =
     (case v of
        JStr s \<Rightarrow> Inr (JStr (take n s))
      | JList xs \<Rightarrow> Inr (JList (take n xs))
      | _ \<Rightarrow> Inl TypeError)"

text \<open>\<open>x + "..."\<close>: only a string can be added to a string.\<close>

definition py_add_dots :: "json \<Rightarrow> pyerr + json" where
  "py_add_dots v = (case v of JStr s \<Rightarrow> Inr (JStr (s @ lit ''...'')) | _ \<Rightarrow> Inl TypeError)"

text \<open>
  The truncation written three times in the source:
  \<open>if len(x) > cap: x = x[:cap - 3] + "..."\<close>.
\<close>

definition truncated :: "nat \<Rightarrow> json \<Rightarrow> pyerr + json" where
  "truncated cap v =
     seq (py_len v) (\<lambda>n.
       if n > cap then seq (py_slice_to (cap - 3) v) py_add_dots else Inr v)"

text \<open>The elements a \<open>for\<close> loop visits.\<close>

definition py_iter :: "json \<Rightarrow> pyerr + json list" where
  "py_iter v =
     (case v of
        JList xs \<Rightarrow> Inr xs
      | JStr s \<Rightarrow> Inr (map (\<lambda>c. JStr [c]) s)
      | JDict kvs \<Rightarrow> Inr (map JStr (remdups (map fst kvs)))
      | _ \<Rightarrow> Inl TypeError)"

text \<open>\<open>sep.join(xs)\<close>: a TypeError unless every element is a string.\<close>

fun the_strs :: "json list \<Rightarrow> pyerr + str list" where
  "the_strs [] = Inr []"
| "the_strs (JStr s # vs) = seq (the_strs vs) (\<lambda>ss. Inr (s # ss))"
| "the_strs (v # vs) = Inl TypeError"

definition py_join :: "str \<Rightarrow> json list \<Rightarrow> pyerr + str" where
  "py_join sep vs = seq (the_strs vs) (\<lambda>ss. Inr (join sep ss))"

text \<open>
  \<open>table.get(key, default)\<close> on a literal dict with string keys: a list or a dict as key
  cannot be hashed; any other value that is not a string is no key of the table.
\<close>

definition table_get :: "(str \<times> 'a) list \<Rightarrow> json \<Rightarrow> 'a \<Rightarrow> pyerr + 'a" where
  "table_get table key dflt =
     (case key of
        JStr s \<Rightarrow> (case map_of table s of Some v \<Rightarrow> Inr v | None \<Rightarrow> Inr dflt)
      | JList xs \<Rightarrow> Inl TypeError
      | JDict kvs \<Rightarrow> Inl TypeError
      | _ \<Rightarrow> Inr dflt)"

section \<open>The notification (\<open>discord.Embed\<close>)\<close>

text \<open>
  The record keeps what the source hands to the constructor, to \<open>add_field\<close>,
  \<open>set_author\<close> and \<open>set_footer\<close>, and what it assigns to \<open>timestamp\<close>. A value that the
  source passes on as it found it in the payload stays a JSON value.
\<close>

record embed_field =
  field_name :: str
  field_value :: json
  field_inline :: bool

record embed =
  title :: str
  description :: str
  color :: int
  url :: json
  embed_fields :: "embed_field list"
  author :: "(json \<times> json) option"
  footer :: "str option"
  timestamp :: "int option"

definition Embed :: "str \<Rightarrow> str \<Rightarrow> int \<Rightarrow> json \<Rightarrow> embed" where
  "Embed t d c u =
     \<lparr>title = t, description = d, color = c, url = u, embed_fields = [],
      author = None, footer = None, timestamp = None\<rparr>"

definition add_field :: "embed \<Rightarrow> str \<Rightarrow> json \<Rightarrow> bool \<Rightarrow> embed" where
  "add_field e n v i =
     e\<lparr>embed_fields := embed_fields e @ [\<lparr>field_name = n, field_value = v, field_inline = i\<rparr>]\<rparr>"

definition set_author :: "embed \<Rightarrow> json \<Rightarrow> json \<Rightarrow> embed" where
  "set_author e n icon = e\<lparr>author := Some (n, icon)\<rparr>"

definition set_footer :: "embed \<Rightarrow> str \<Rightarrow> embed" where
  "set_footer e t = e\<lparr>footer := Some t\<rparr>"

text \<open>\<open>embed.timestamp = discord.utils.utcnow()\<close>; the reading of the clock is an input.\<close>

definition set_timestamp :: "embed \<Rightarrow> int \<Rightarrow> embed" where
  "set_timestamp e now = e\<lparr>timestamp := Some now\<rparr>"

text \<open>The value of the first field with a given name, if there is one.\<close>

definition field_named :: "str \<Rightarrow> embed \<Rightarrow> json option" where
  "field_named n e = map_option field_value (find (\<lambda>f. field_name f = n) (embed_fields e))"

section \<open>The event renderer (\<open>webhook_server.create_*_embed\<close>)\<close>

text \<open>
  Each renderer follows its source statement by statement, in the order in which Python
  evaluates: a step that can raise is a \<open>seq\<close>, and the first exception ends the
  renderer. The arguments are the library parameters, the reading of the clock and the
  decoded payload.
\<close>

text \<open>
  The value of the "Repository" field, the same f-string in all six renderers:
  \<open>f"[{repository.get('full_name', 'Unknown')}]({repository.get('html_url', '#')})"\<close>.
\<close>

definition repository_link :: "pylib \<Rightarrow> json \<Rightarrow> pyerr + str" where
  "repository_link lib repository =
     seq (py_get repository (lit ''full_name'') (JStr (lit ''Unknown''))) (\<lambda>full_name.
     seq (py_get repository (lit ''html_url'') (JStr (lit ''#''))) (\<lambda>html_url.
       Inr (lit ''['' @ py_str lib full_name @ lit '']('' @ py_str lib html_url @ lit '')'')))"

text \<open>
  \<open>branch = ref.replace("refs/heads/", "") if ref.startswith("refs/heads/") else ref\<close>
\<close>

definition branch_of_ref :: "json \<Rightarrow> pyerr + str" where
  "branch_of_ref ref =
     (case ref of
        JStr r \<Rightarrow>
          Inr (if startswith r (lit ''refs/heads/'') then py_replace (lit ''refs/heads/'') [] r
               else r)
      | _ \<Rightarrow> Inl AttributeError)"

definition create_push_embed :: "pylib \<Rightarrow> int \<Rightarrow> json \<Rightarrow> pyerr + embed" where
  "create_push_embed lib now payload =
     seq (py_get payload (lit ''repository'') (JDict [])) (\<lambda>repository.
     seq (py_get payload (lit ''pusher'') (JDict [])) (\<lambda>pusher.
     seq (py_get payload (lit ''commits'') (JList [])) (\<lambda>commits.
     seq (py_get payload (lit ''ref'') (JStr [])) (\<lambda>ref.
     seq (py_get payload (lit ''compare'') (JStr [])) (\<lambda>compare_url.
     seq (branch_of_ref ref) (\<lambda>branch.
     seq (py_len commits) (\<lambda>n.
     seq (py_get repository (lit ''name'') (JStr (lit ''Unknown''))) (\<lambda>repo_name.
     let embed = Embed
           (0x1F4DD # lit '' New Push to '' @ branch)
           (lit ''**'' @ str_of_nat n @ lit '' commit(s)** pushed to `'' @ py_str lib repo_name
              @ lit ''`'')
           0x28a745
           compare_url
     in
     seq (repository_link lib repository) (\<lambda>link.
     let embed = add_field embed (lit ''Repository'') (JStr link) True in
     seq (py_get pusher (lit ''name'') (JStr (lit ''Unknown''))) (\<lambda>pushed_by.
     let embed = add_field embed (lit ''Pushed by'') pushed_by True;
         embed = add_field embed (lit ''Commits'') (JStr (str_of_nat n)) True
     in
     seq (if py_truthy commits then
            seq (py_last commits) (\<lambda>latest_commit.
            seq (py_get latest_commit (lit ''message'') (JStr (lit ''No message'')))
              (\<lambda>commit_message.
            seq (truncated 100 commit_message) (\<lambda>commit_message.
            seq (py_get latest_commit (lit ''url'') (JStr (lit ''#''))) (\<lambda>commit_url.
              Inr (add_field embed (lit ''Latest Commit'')
                     (JStr (lit ''['' @ py_str lib commit_message @ lit '']('' @
                            py_str lib commit_url @ lit '')''))
                     False)))))
          else Inr embed) (\<lambda>embed.
     seq (py_get pusher (lit ''name'') (JStr (lit ''Unknown''))) (\<lambda>author_name.
     seq (py_get pusher (lit ''avatar_url'') (JStr [])) (\<lambda>icon_url.
       Inr (set_timestamp
              (set_footer (set_author embed author_name icon_url)
                 (lit ''Patchy - GitHub Push Event''))
              now))))))))))))))"

definition pr_color_map :: "(str \<times> int) list" where
  "pr_color_map =
     [(lit ''opened'', 0x28a745), (lit ''closed'', 0xdc3545),
      (lit ''merged'', 0x6f42c1), (lit ''reopened'', 0x17a2b8)]"

definition create_pull_request_embed :: "pylib \<Rightarrow> int \<Rightarrow> json \<Rightarrow> pyerr + embed" where
  "create_pull_request_embed lib now payload =
     seq (py_get payload (lit ''pull_request'') (JDict [])) (\<lambda>pr.
     seq (py_get payload (lit ''action'') (JStr [])) (\<lambda>action.
     seq (py_get payload (lit ''repository'') (JDict [])) (\<lambda>repository.
     seq (table_get pr_color_map action 0x6c757d) (\<lambda>color.
     seq (py_title lib action) (\<lambda>action_title.
     seq (py_get pr (lit ''title'') (JStr (lit ''No title''))) (\<lambda>pr_title.
     seq (py_get pr (lit ''html_url'') (JStr (lit ''#''))) (\<lambda>html_url.
     let embed = Embed
           (0x1F500 # lit '' Pull Request '' @ action_title)
           (lit ''**'' @ py_str lib pr_title @ lit ''**'')
           color
           html_url
     in
     seq (py_get pr (lit ''number'') (JStr (lit ''?''))) (\<lambda>number.
     seq (py_get pr (lit ''state'') (JStr (lit ''unknown''))) (\<lambda>state.
     seq (py_title lib state) (\<lambda>state_title.
     let embed = add_field embed (lit ''PR #'' @ py_str lib number)
                   (JStr (lit ''**'' @ state_title @ lit ''**'')) True
     in
     seq (repository_link lib repository) (\<lambda>link.
     let embed = add_field embed (lit ''Repository'') (JStr link) True in
     seq (py_get pr (lit ''user'') (JDict [])) (\<lambda>user.
     seq (py_get user (lit ''login'') (JStr (lit ''Unknown''))) (\<lambda>login.
     let embed = add_field embed (lit ''Author'') login True in
     seq (py_get pr (lit ''body'') (JStr [])) (\<lambda>body.
     seq (if py_truthy body then
            seq (truncated 500 body) (\<lambda>body.
              Inr (add_field embed (lit ''Description'') body False))
          else Inr embed) (\<lambda>embed.
     seq (py_get user (lit ''login'') (JStr (lit ''Unknown''))) (\<lambda>author_name.
     seq (py_get user (lit ''avatar_url'') (JStr [])) (\<lambda>icon_url.
       Inr (set_timestamp
              (set_footer (set_author embed author_name icon_url)
                 (lit ''Patchy - GitHub Pull Request Event''))
              now))))))))))))))))))"

definition issue_color_map :: "(str \<times> int) list" where
  "issue_color_map =
     [(lit ''opened'', 0xdc3545), (lit ''closed'', 0x28a745), (lit ''reopened'', 0x17a2b8)]"

definition create_issue_embed :: "pylib \<Rightarrow> int \<Rightarrow> json \<Rightarrow> pyerr + embed" where
  "create_issue_embed lib now payload =
     seq (py_get payload (lit ''issue'') (JDict [])) (\<lambda>issue.
     seq (py_get payload (lit ''action'') (JStr [])) (\<lambda>action.
     seq (py_get payload (lit ''repository'') (JDict [])) (\<lambda>repository.
     seq (table_get issue_color_map action 0x6c757d) (\<lambda>color.
     seq (py_title lib action) (\<lambda>action_title.
     seq (py_get issue (lit ''title'') (JStr (lit ''No title''))) (\<lambda>issue_title.
     seq (py_get issue (lit ''html_url'') (JStr (lit ''#''))) (\<lambda>html_url.
     let embed = Embed
           (0x1F41B # lit '' Issue '' @ action_title)
           (lit ''**'' @ py_str lib issue_title @ lit ''**'')
           color
           html_url
     in
     seq (py_get issue (lit ''number'') (JStr (lit ''?''))) (\<lambda>number.
     seq (py_get issue (lit ''state'') (JStr (lit ''unknown''))) (\<lambda>state.
     seq (py_title lib state) (\<lambda>state_title.
     let embed = add_field embed (lit ''Issue #'' @ py_str lib number)
                   (JStr (lit ''**'' @ state_title @ lit ''**'')) True
     in
     seq (repository_link lib repository) (\<lambda>link.
     let embed = add_field embed (lit ''Repository'') (JStr link) True in
     seq (py_get issue (lit ''user'') (JDict [])) (\<lambda>user.
     seq (py_get user (lit ''login'') (JStr (lit ''Unknown''))) (\<lambda>login.
     let embed = add_field embed (lit ''Author'') login True in
     seq (py_get issue (lit ''labels'') (JList [])) (\<lambda>labels.
     seq (if py_truthy labels then
            seq (py_slice_to 5 labels) (\<lambda>first_labels.
            seq (py_iter first_labels) (\<lambda>each_label.
            seq (map_err (\<lambda>label. py_get label (lit ''name'') (JStr [])) each_label)
              (\<lambda>label_names.
            seq (py_join (lit '', '') label_names) (\<lambda>joined.
              Inr (add_field embed (lit ''Labels'') (JStr joined) False)))))
          else Inr embed) (\<lambda>embed.
     seq (py_get user (lit ''login'') (JStr (lit ''Unknown''))) (\<lambda>author_name.
     seq (py_get user (lit ''avatar_url'') (JStr [])) (\<lambda>icon_url.
       Inr (set_timestamp
              (set_footer (set_author embed author_name icon_url)
                 (lit ''Patchy - GitHub Issue Event''))
              now))))))))))))))))))"

definition create_release_embed :: "pylib \<Rightarrow> int \<Rightarrow> json \<Rightarrow> pyerr + embed" where
  "create_release_embed lib now payload =
     seq (py_get payload (lit ''release'') (JDict [])) (\<lambda>release.
     seq (py_get payload (lit ''action'') (JStr [])) (\<lambda>action.
     seq (py_get payload (lit ''repository'') (JDict [])) (\<lambda>repository.
     seq (py_title lib action) (\<lambda>action_title.
     seq (py_get release (lit ''tag_name'') (JStr (lit ''No title''))) (\<lambda>fallback.
     seq (py_get release (lit ''name'') fallback) (\<lambda>release_name.
     seq (py_get release (lit ''html_url'') (JStr (lit ''#''))) (\<lambda>html_url.
     let embed = Embed
           (0x1F680 # lit '' Release '' @ action_title)
           (lit ''**'' @ py_str lib release_name @ lit ''**'')
           0xffc107
           html_url
     in
     seq (py_get release (lit ''tag_name'') (JStr (lit ''No tag''))) (\<lambda>tag_name.
     let embed = add_field embed (lit ''Tag'') tag_name True in
     seq (repository_link lib repository) (\<lambda>link.
     let embed = add_field embed (lit ''Repository'') (JStr link) True in
     seq (py_get release (lit ''author'') (JDict [])) (\<lambda>author.
     seq (py_get author (lit ''login'') (JStr (lit ''Unknown''))) (\<lambda>login.
     let embed = add_field embed (lit ''Author'') login True in
     seq (py_get release (lit ''body'') (JStr [])) (\<lambda>body.
     seq (if py_truthy body then
            seq (truncated 500 body) (\<lambda>body.
              Inr (add_field embed (lit ''Description'') body False))
          else Inr embed) (\<lambda>embed.
     seq (py_get author (lit ''login'') (JStr (lit ''Unknown''))) (\<lambda>author_name.
     seq (py_get author (lit ''avatar_url'') (JStr [])) (\<lambda>icon_url.
       Inr (set_timestamp
              (set_footer (set_author embed author_name icon_url)
                 (lit ''Patchy - GitHub Release Event''))
              now))))))))))))))))"

definition create_emoji_map :: "(str \<times> str) list" where
  "create_emoji_map = [(lit ''branch'', [0x1F33F]), (lit ''tag'', [0x1F3F7, 0xFE0F])]"

definition create_create_embed :: "pylib \<Rightarrow> int \<Rightarrow> json \<Rightarrow> pyerr + embed" where
  "create_create_embed lib now payload =
     seq (py_get payload (lit ''ref'') (JStr [])) (\<lambda>ref.
     seq (py_get payload (lit ''ref_type'') (JStr [])) (\<lambda>ref_type.
     seq (py_get payload (lit ''repository'') (JDict [])) (\<lambda>repository.
     seq (py_get payload (lit ''sender'') (JDict [])) (\<lambda>sender.
     seq (table_get create_emoji_map ref_type [0x1F4DD]) (\<lambda>emoji.
     seq (py_title lib ref_type) (\<lambda>ref_type_title.
     seq (py_get repository (lit ''name'') (JStr (lit ''Unknown''))) (\<lambda>repo_name.
     seq (py_get repository (lit ''html_url'') (JStr (lit ''#''))) (\<lambda>html_url.
     let embed = Embed
           (emoji @ lit '' '' @ ref_type_title @ lit '' Created'')
           (lit ''**'' @ py_str lib ref @ lit ''** created in `'' @ py_str lib repo_name
              @ lit ''`'')
           0x17a2b8
           html_url
     in
     seq (repository_link lib repository) (\<lambda>link.
     let embed = add_field embed (lit ''Repository'') (JStr link) True in
     seq (py_get sender (lit ''login'') (JStr (lit ''Unknown''))) (\<lambda>login.
     let embed = add_field embed (lit ''Created by'') login True in
     seq (py_get sender (lit ''login'') (JStr (lit ''Unknown''))) (\<lambda>author_name.
     seq (py_get sender (lit ''avatar_url'') (JStr [])) (\<lambda>icon_url.
       Inr (set_timestamp
              (set_footer (set_author embed author_name icon_url)
                 (lit ''Patchy - GitHub Create Event''))
              now)))))))))))))"

definition delete_emoji_map :: "(str \<times> str) list" where
  "delete_emoji_map = [(lit ''branch'', [0x1F5D1, 0xFE0F]), (lit ''tag'', [0x1F5D1, 0xFE0F])]"

definition create_delete_embed :: "pylib \<Rightarrow> int \<Rightarrow> json \<Rightarrow> pyerr + embed" where
  "create_delete_embed lib now payload =
     seq (py_get payload (lit ''ref'') (JStr [])) (\<lambda>ref.
     seq (py_get payload (lit ''ref_type'') (JStr [])) (\<lambda>ref_type.
     seq (py_get payload (lit ''repository'') (JDict [])) (\<lambda>repository.
     seq (py_get payload (lit ''sender'') (JDict [])) (\<lambda>sender.
     seq (table_get delete_emoji_map ref_type [0x1F5D1, 0xFE0F]) (\<lambda>emoji.
     seq (py_title lib ref_type) (\<lambda>ref_type_title.
     seq (py_get repository (lit ''name'') (JStr (lit ''Unknown''))) (\<lambda>repo_name.
     seq (py_get repository (lit ''html_url'') (JStr (lit ''#''))) (\<lambda>html_url.
     let embed = Embed
           (emoji @ lit '' '' @ ref_type_title @ lit '' Deleted'')
           (lit ''**'' @ py_str lib ref @ lit ''** deleted from `'' @ py_str lib repo_name
              @ lit ''`'')
           0xdc3545
           html_url
     in
     seq (repository_link lib repository) (\<lambda>link.
     let embed = add_field embed (lit ''Repository'') (JStr link) True in
     seq (py_get sender (lit ''login'') (JStr (lit ''Unknown''))) (\<lambda>login.
     let embed = add_field embed (lit ''Deleted by'') login True in
     seq (py_get sender (lit ''login'') (JStr (lit ''Unknown''))) (\<lambda>author_name.
     seq (py_get sender (lit ''avatar_url'') (JStr [])) (\<lambda>icon_url.
       Inr (set_timestamp
              (set_footer (set_author embed author_name icon_url)
                 (lit ''Patchy - GitHub Delete Event''))
              now)))))))))))))"

text \<open>
  \<open>create_event_embed\<close>: the \<open>try\<close> around the dispatch gives \<open>None\<close> for every
  exception of a renderer, and the final \<open>else\<close> gives \<open>None\<close> for any other event type.
\<close>

definition catch :: "pyerr + 'a \<Rightarrow> 'a option" where
  "catch r = (case r of Inl e \<Rightarrow> None | Inr v \<Rightarrow> Some v)"

definition create_event_embed :: "pylib \<Rightarrow> int \<Rightarrow> str \<Rightarrow> json \<Rightarrow> embed option" where
  "create_event_embed lib now event_type payload =
     (if event_type = lit ''push'' then catch (create_push_embed lib now payload)
      else if event_type = lit ''pull_request'' then
        catch (create_pull_request_embed lib now payload)
      else if event_type = lit ''issues'' then catch (create_issue_embed lib now payload)
      else if event_type = lit ''release'' then catch (create_release_embed lib now payload)
      else if event_type = lit ''create'' then catch (create_create_embed lib now payload)
      else if event_type = lit ''delete'' then catch (create_delete_embed lib now payload)
      else None)"

definition supported_events :: "str list" where
  "supported_events =
     [lit ''push'', lit ''pull_request'', lit ''issues'', lit ''release'', lit ''create'',
      lit ''delete'']"

section \<open>The dispatcher (\<open>discord_bot.send_github_notification\<close>)\<close>

text \<open>
  \<open>await self.target_channel.send(embed=embed)\<close> is the call to the chat service. It
  returns, or it raises \<open>discord.Forbidden\<close>, another \<open>discord.HTTPException\<close>, some
  other exception derived from \<open>Exception\<close>, or an exception that is not derived from
  \<open>Exception\<close>: \<open>asyncio.CancelledError\<close> when the task is cancelled while it waits,
  \<open>KeyboardInterrupt\<close>, \<open>SystemExit\<close>. The channel records every call made on it; what
  the service answers to the call number \<open>k\<close> is \<open>answers k\<close>.
\<close>

datatype send_outcome =
  Delivered | Forbidden | HTTPException | OtherException | OtherBaseException

text \<open>
  How a call of a function of the bot ends: it returns a value, or an exception leaves
  it and goes on to the caller.
\<close>

datatype 'a completion = Returned 'a | Propagated

record channel =
  answers :: "nat \<Rightarrow> send_outcome"
  calls :: "embed list"

definition channel_send :: "channel \<Rightarrow> embed \<Rightarrow> send_outcome \<times> channel" where
  "channel_send ch e = (answers ch (length (calls ch)), ch\<lparr>calls := calls ch @ [e]\<rparr>)"

record bot =
  target_channel :: "channel option"

text \<open>
  The three handlers are \<open>except discord.Forbidden\<close>, \<open>except discord.HTTPException\<close>
  and \<open>except Exception\<close>, each returning \<open>False\<close>; no handler catches an exception
  that is not derived from \<open>Exception\<close>.
\<close>

definition send_github_notification :: "bot \<Rightarrow> embed \<Rightarrow> bool completion \<times> bot" where
  "send_github_notification self e =
     (case target_channel self of
        None \<Rightarrow> (Returned False, self)
      | Some ch \<Rightarrow>
          (case channel_send ch e of
             (outcome, ch') \<Rightarrow>
               (case outcome of
                  Delivered \<Rightarrow> Returned True
                | Forbidden \<Rightarrow> Returned False
                | HTTPException \<Rightarrow> Returned False
                | OtherException \<Rightarrow> Returned False
                | OtherBaseException \<Rightarrow> Propagated,
                self\<lparr>target_channel := Some ch'\<rparr>)))"

text \<open>The number of calls of \<open>send\<close> made so far on the bot's channel.\<close>

definition sends_made :: "bot \<Rightarrow> nat" where
  "sends_made self = (case target_channel self of None \<Rightarrow> 0 | Some ch \<Rightarrow> length (calls ch))"

text \<open>
  \<open>process_github_event\<close>, the body of a background task: render, and send when there
  is an embed (an embed with a title is true for \<open>if embed:\<close>). Neither step raises an
  exception derived from \<open>Exception\<close>, so the handler \<open>except Exception\<close> of the outer
  \<open>try\<close> is never entered; an exception that leaves \<open>send_github_notification\<close> is not
  derived from \<open>Exception\<close> and leaves this function too.
\<close>

definition process_github_event ::
  "pylib \<Rightarrow> int \<Rightarrow> bot \<Rightarrow> str \<Rightarrow> json \<Rightarrow> unit completion \<times> bot" where
  "process_github_event lib now self event_type payload =
     (case create_event_embed lib now event_type payload of
        Some e \<Rightarrow>
          (case send_github_notification self e of
             (Returned success, self') \<Rightarrow> (Returned (), self')
           | (Propagated, self') \<Rightarrow> (Propagated, self'))
      | None \<Rightarrow> (Returned (), self))"

section \<open>The ingestion endpoint (\<open>webhook_server.github_webhook\<close>)\<close>

text \<open>
  A request is its raw body and the two headers the handler reads. The decoder
  \<open>json.loads(body.decode('utf-8'))\<close> is a parameter: it gives the payload, raises
  \<open>JSONDecodeError\<close>, or raises something else (a body that is not UTF-8). The
  queue of background tasks is passed in and returned.
\<close>

record request =
  raw_body :: bytes
  x_hub_signature_256 :: "str option"
  x_github_event :: "str option"

datatype loads_result = Decoded json | JSONDecodeError | OtherDecodeError

datatype task = ProcessGithubEvent str json

record response =
  status_code :: nat
  content :: json

text \<open>
  What \<open>http_exception_handler\<close> answers for a raised \<open>HTTPException(status, detail)\<close>.
\<close>

definition http_exception :: "nat \<Rightarrow> str \<Rightarrow> response" where
  "http_exception status detail =
     \<lparr>status_code = status,
      content = JDict [(lit ''error'', JStr detail), (lit ''status_code'', JInt (int status))]\<rparr>"

definition github_webhook ::
  "str \<Rightarrow> (bytes \<Rightarrow> loads_result) \<Rightarrow> request \<Rightarrow> task list \<Rightarrow> response \<times> task list" where
  "github_webhook secret loads req background_tasks =
     (let body = raw_body req;
          signature = (case x_hub_signature_256 req of None \<Rightarrow> [] | Some h \<Rightarrow> h);
          event_type = (case x_github_event req of None \<Rightarrow> [] | Some h \<Rightarrow> h)
      in if \<not> verify_github_signature secret body signature then
           (http_exception 401 (lit ''Invalid signature''), background_tasks)
         else
           (case loads body of
              JSONDecodeError \<Rightarrow>
                (http_exception 400 (lit ''Invalid JSON payload''), background_tasks)
            | OtherDecodeError \<Rightarrow>
                (http_exception 500 (lit ''Internal server error''), background_tasks)
            | Decoded payload \<Rightarrow>
                (\<lparr>status_code = 200,
                  content = JDict [(lit ''message'',
                                    JStr (lit ''Event received and queued for processing'')),
                                   (lit ''event_type'', JStr event_type)]\<rparr>,
                 background_tasks @ [ProcessGithubEvent event_type payload])))"

section \<open>Sample inputs\<close>

text \<open>
  A library for the worked examples: it writes \<open>?\<close> for a float, list or dict and leaves
  the case of a string alone. The properties below hold for every library.
\<close>

definition plain_lib :: pylib where
  "plain_lib = \<lparr>repr_of = (\<lambda>v. lit ''?''), title_of = (\<lambda>s. s)\<rparr>"

text \<open>
  The push payload of the specification's end-to-end scenario:
  \<open>{"ref":"refs/heads/main","repository":{"name":"r"},"pusher":{"name":"u"},
  "commits":[{"message":"m","url":"x"}]}\<close>.
\<close>

definition spec_push_payload :: json where
  "spec_push_payload =
     JDict [(lit ''ref'', JStr (lit ''refs/heads/main'')),
            (lit ''repository'', JDict [(lit ''name'', JStr (lit ''r''))]),
            (lit ''pusher'', JDict [(lit ''name'', JStr (lit ''u''))]),
            (lit ''commits'',
             JList [JDict [(lit ''message'', JStr (lit ''m'')), (lit ''url'', JStr (lit ''x''))]])]"

text \<open>
  Two secrets that sign alike: 60 times the letter \<open>k\<close> and then \<open>0229366092\<close>, 70
  characters; and the 23 characters whose UTF-8 form is the SHA-256 digest of the first.
  Neither holds the character 0, so either can be the value of an environment variable.
  \<open>long_key\<close> and \<open>digest_key\<close> are their UTF-8 forms.
\<close>

definition long_secret :: str where
  "long_secret = replicate 60 107 @ lit ''0229366092''"

definition digest_secret :: str where
  "digest_secret =
     [0x15c, 0x11, 0x7e5, 0x3c0, 0x7172b, 0x9, 0xa, 0x3e, 0x53, 0x7,
      0x16e, 0x41, 0x12, 0x7, 0x38, 0x4336, 0x2e, 0x12, 0x62, 0x22,
      0x28, 0x27, 0x9]"

definition long_key :: bytes where
  "long_key = replicate 60 0x6b @ [0x30, 0x32, 0x32, 0x39, 0x33, 0x36, 0x36, 0x30, 0x39, 0x32]"

definition digest_key :: bytes where
  "digest_key =
     [0xc5, 0x9c, 0x11, 0xdf, 0xa5, 0xcf, 0x80, 0xf1, 0xb1, 0x9c, 0xab, 0x09,
      0x0a, 0x3e, 0x53, 0x07, 0xc5, 0xae, 0x41, 0x12, 0x07, 0x38, 0xe4, 0x8c,
      0xb6, 0x2e, 0x12, 0x62, 0x22, 0x28, 0x27, 0x09]"

text \<open>A pull request whose body is 600 times the letter \<open>x\<close>.\<close>

definition long_body_payload :: json where
  "long_body_payload =
     JDict [(lit ''action'', JStr (lit ''opened'')),
            (lit ''pull_request'', JDict [(lit ''body'', JStr (replicate 600 120))])]"

text \<open>An issue with the eight labels \<open>l1\<close>, ..., \<open>l8\<close>.\<close>

definition eight_labels :: "json list" where
  "eight_labels =
     map (\<lambda>n. JDict [(lit ''name'', JStr n)])
       [lit ''l1'', lit ''l2'', lit ''l3'', lit ''l4'', lit ''l5'', lit ''l6'', lit ''l7'',
        lit ''l8'']"

definition eight_labels_payload :: json where
  "eight_labels_payload =
     JDict [(lit ''action'', JStr (lit ''opened'')),
            (lit ''issue'', JDict [(lit ''labels'', JList eight_labels)])]"

text \<open>
  A release with the body \<open>notes\<close>, a release with no field at all, and a pull request
  whose body is the list \<open>[1]\<close> instead of a string.
\<close>

definition release_notes_payload :: json where
  "release_notes_payload =
     JDict [(lit ''action'', JStr (lit ''published'')),
            (lit ''release'',
             JDict [(lit ''tag_name'', JStr (lit ''v1'')), (lit ''body'', JStr (lit ''notes''))])]"

definition bare_release_payload :: json where
  "bare_release_payload = JDict [(lit ''release'', JDict [])]"

definition list_body_payload :: json where
  "list_body_payload = JDict [(lit ''pull_request'', JDict [(lit ''body'', JList [JInt 1])])]"

text \<open>A pull request with no field at all, hence without a body.\<close>

definition bare_pr_payload :: json where
  "bare_pr_payload = JDict [(lit ''pull_request'', JDict [])]"

section \<open>SHA-256 and HMAC at the sample secrets\<close>

text \<open>
  The digests below are those that \<open>hashlib\<close> and \<open>hmac\<close> give. Each block of a
  message is evaluated on its own.
\<close>

subsection \<open>The digest of the long key\<close>

lemma sha256_long_key_words:
  "words_of (sha256_pad (long_key)) =
     [0x6b6b6b6b, 0x6b6b6b6b, 0x6b6b6b6b, 0x6b6b6b6b, 0x6b6b6b6b, 0x6b6b6b6b,
      0x6b6b6b6b, 0x6b6b6b6b, 0x6b6b6b6b, 0x6b6b6b6b, 0x6b6b6b6b, 0x6b6b6b6b,
      0x6b6b6b6b, 0x6b6b6b6b, 0x6b6b6b6b, 0x30323239, 0x33363630, 0x39328000,
      0x00000000, 0x00000000, 0x00000000, 0x00000000, 0x00000000, 0x00000000,
      0x00000000, 0x00000000, 0x00000000, 0x00000000, 0x00000000, 0x00000000,
      0x00000000, 0x00000230]"
  by code_simp

lemma sha256_long_key_block1:
  "compress
     [0x6a09e667, 0xbb67ae85, 0x3c6ef372, 0xa54ff53a, 0x510e527f, 0x9b05688c,
      0x1f83d9ab, 0x5be0cd19]
     [0x6b6b6b6b, 0x6b6b6b6b, 0x6b6b6b6b, 0x6b6b6b6b, 0x6b6b6b6b, 0x6b6b6b6b,
      0x6b6b6b6b, 0x6b6b6b6b, 0x6b6b6b6b, 0x6b6b6b6b, 0x6b6b6b6b, 0x6b6b6b6b,
      0x6b6b6b6b, 0x6b6b6b6b, 0x6b6b6b6b, 0x30323239] =
     [0xc8b1a174, 0x418f4714, 0x2c998a5d, 0x7d8c6437, 0x8850e8ce, 0xc4617b51,
      0x14ec1e4d, 0xdf78988c]"
  by code_simp

lemma sha256_long_key_block2:
  "compress
     [0xc8b1a174, 0x418f4714, 0x2c998a5d, 0x7d8c6437, 0x8850e8ce, 0xc4617b51,
      0x14ec1e4d, 0xdf78988c]
     [0x33363630, 0x39328000, 0x00000000, 0x00000000, 0x00000000, 0x00000000,
      0x00000000, 0x00000000, 0x00000000, 0x00000000, 0x00000000, 0x00000000,
      0x00000000, 0x00000000, 0x00000000, 0x00000230] =
     [0xc59c11df, 0xa5cf80f1, 0xb19cab09, 0x0a3e5307, 0xc5ae4112, 0x0738e48c,
      0xb62e1262, 0x22282709]"
  by code_simp

lemma sha256_long_key_bytes:
  "concat (map be32_bytes
     [0xc59c11df, 0xa5cf80f1, 0xb19cab09, 0x0a3e5307, 0xc5ae4112, 0x0738e48c,
      0xb62e1262, 0x22282709]) =
     [0xc5, 0x9c, 0x11, 0xdf, 0xa5, 0xcf, 0x80, 0xf1, 0xb1, 0x9c, 0xab, 0x09,
      0x0a, 0x3e, 0x53, 0x07, 0xc5, 0xae, 0x41, 0x12, 0x07, 0x38, 0xe4, 0x8c,
      0xb6, 0x2e, 0x12, 0x62, 0x22, 0x28, 0x27, 0x09]"
  by code_simp

lemma sha256_long_key:
  "sha256 (long_key) =
     digest_key"
proof -
  have "sha_blocks sha256_H0 (words_of (sha256_pad (long_key))) =
     [0xc59c11df, 0xa5cf80f1, 0xb19cab09, 0x0a3e5307, 0xc5ae4112, 0x0738e48c,
      0xb62e1262, 0x22282709]"
    by (simp add: sha256_long_key_words sha256_H0_def sha_blocks.simps sha256_long_key_block1 sha256_long_key_block2
        del: compress.simps)
  then show ?thesis
    by (simp only: sha256_def sha256_long_key_bytes digest_key_def)
qed

subsection \<open>The HMAC of \<open>{}\<close> under the key \<open>a\<close>\<close>

lemma hmac_a_inner_words:
  "words_of (sha256_pad (map (\<lambda>b. b XOR 0x36) (hmac_key_block [0x61]) @ [0x7b, 0x7d])) =
     [0x57363636, 0x36363636, 0x36363636, 0x36363636, 0x36363636, 0x36363636,
      0x36363636, 0x36363636, 0x36363636, 0x36363636, 0x36363636, 0x36363636,
      0x36363636, 0x36363636, 0x36363636, 0x36363636, 0x7b7d8000, 0x00000000,
      0x00000000, 0x00000000, 0x00000000, 0x00000000, 0x00000000, 0x00000000,
      0x00000000, 0x00000000, 0x00000000, 0x00000000, 0x00000000, 0x00000000,
      0x00000000, 0x00000210]"
  by code_simp

lemma hmac_a_inner_block1:
  "compress
     [0x6a09e667, 0xbb67ae85, 0x3c6ef372, 0xa54ff53a, 0x510e527f, 0x9b05688c,
      0x1f83d9ab, 0x5be0cd19]
     [0x57363636, 0x36363636, 0x36363636, 0x36363636, 0x36363636, 0x36363636,
      0x36363636, 0x36363636, 0x36363636, 0x36363636, 0x36363636, 0x36363636,
      0x36363636, 0x36363636, 0x36363636, 0x36363636] =
     [0x9aa199f9, 0x82ae0bba, 0x26a8e033, 0xcc86dd78, 0xb9f98473, 0x54c4ca35,
      0x35ce7429, 0xf4b2b915]"
  by code_simp

lemma hmac_a_inner_block2:
  "compress
     [0x9aa199f9, 0x82ae0bba, 0x26a8e033, 0xcc86dd78, 0xb9f98473, 0x54c4ca35,
      0x35ce7429, 0xf4b2b915]
     [0x7b7d8000, 0x00000000, 0x00000000, 0x00000000, 0x00000000, 0x00000000,
      0x00000000, 0x00000000, 0x00000000, 0x00000000, 0x00000000, 0x00000000,
      0x00000000, 0x00000000, 0x00000000, 0x00000210] =
     [0x1961bcd8, 0xcf773a5f, 0x019299a0, 0x0e43ed88, 0x6e78ef61, 0xee412d8b,
      0x9f9ec996, 0x7de71ccd]"
  by code_simp

lemma hmac_a_inner_bytes:
  "concat (map be32_bytes
     [0x1961bcd8, 0xcf773a5f, 0x019299a0, 0x0e43ed88, 0x6e78ef61, 0xee412d8b,
      0x9f9ec996, 0x7de71ccd]) =
     [0x19, 0x61, 0xbc, 0xd8, 0xcf, 0x77, 0x3a, 0x5f, 0x01, 0x92, 0x99, 0xa0,
      0x0e, 0x43, 0xed, 0x88, 0x6e, 0x78, 0xef, 0x61, 0xee, 0x41, 0x2d, 0x8b,
      0x9f, 0x9e, 0xc9, 0x96, 0x7d, 0xe7, 0x1c, 0xcd]"
  by code_simp

lemma hmac_a_inner:
  "sha256 (map (\<lambda>b. b XOR 0x36) (hmac_key_block [0x61]) @ [0x7b, 0x7d]) =
     [0x19, 0x61, 0xbc, 0xd8, 0xcf, 0x77, 0x3a, 0x5f, 0x01, 0x92, 0x99, 0xa0,
      0x0e, 0x43, 0xed, 0x88, 0x6e, 0x78, 0xef, 0x61, 0xee, 0x41, 0x2d, 0x8b,
      0x9f, 0x9e, 0xc9, 0x96, 0x7d, 0xe7, 0x1c, 0xcd]"
proof -
  have "sha_blocks sha256_H0 (words_of (sha256_pad (map (\<lambda>b. b XOR 0x36) (hmac_key_block [0x61]) @ [0x7b, 0x7d]))) =
     [0x1961bcd8, 0xcf773a5f, 0x019299a0, 0x0e43ed88, 0x6e78ef61, 0xee412d8b,
      0x9f9ec996, 0x7de71ccd]"
    by (simp add: hmac_a_inner_words sha256_H0_def sha_blocks.simps hmac_a_inner_block1 hmac_a_inner_block2
        del: compress.simps)
  then show ?thesis
    by (simp only: sha256_def hmac_a_inner_bytes)
qed

lemma hmac_a_outer_words:
  "words_of (sha256_pad (map (\<lambda>b. b XOR 0x5c) (hmac_key_block [0x61]) @
     [0x19, 0x61, 0xbc, 0xd8, 0xcf, 0x77, 0x3a, 0x5f, 0x01, 0x92, 0x99, 0xa0,
      0x0e, 0x43, 0xed, 0x88, 0x6e, 0x78, 0xef, 0x61, 0xee, 0x41, 0x2d, 0x8b,
      0x9f, 0x9e, 0xc9, 0x96, 0x7d, 0xe7, 0x1c, 0xcd])) =
     [0x3d5c5c5c, 0x5c5c5c5c, 0x5c5c5c5c, 0x5c5c5c5c, 0x5c5c5c5c, 0x5c5c5c5c,
      0x5c5c5c5c, 0x5c5c5c5c, 0x5c5c5c5c, 0x5c5c5c5c, 0x5c5c5c5c, 0x5c5c5c5c,
      0x5c5c5c5c, 0x5c5c5c5c, 0x5c5c5c5c, 0x5c5c5c5c, 0x1961bcd8, 0xcf773a5f,
      0x019299a0, 0x0e43ed88, 0x6e78ef61, 0xee412d8b, 0x9f9ec996, 0x7de71ccd,
      0x80000000, 0x00000000, 0x00000000, 0x00000000, 0x00000000, 0x00000000,
      0x00000000, 0x00000300]"
  by code_simp

lemma hmac_a_outer_block1:
  "compress
     [0x6a09e667, 0xbb67ae85, 0x3c6ef372, 0xa54ff53a, 0x510e527f, 0x9b05688c,
      0x1f83d9ab, 0x5be0cd19]
     [0x3d5c5c5c, 0x5c5c5c5c, 0x5c5c5c5c, 0x5c5c5c5c, 0x5c5c5c5c, 0x5c5c5c5c,
      0x5c5c5c5c, 0x5c5c5c5c, 0x5c5c5c5c, 0x5c5c5c5c, 0x5c5c5c5c, 0x5c5c5c5c,
      0x5c5c5c5c, 0x5c5c5c5c, 0x5c5c5c5c, 0x5c5c5c5c] =
     [0x4a366b98, 0x0b9bd2f7, 0xe45768cf, 0xe0dbc14e, 0x763621cf, 0x5bbf460d,
      0x18416c64, 0xada43b80]"
  by code_simp

lemma hmac_a_outer_block2:
  "compress
     [0x4a366b98, 0x0b9bd2f7, 0xe45768cf, 0xe0dbc14e, 0x763621cf, 0x5bbf460d,
      0x18416c64, 0xada43b80]
     [0x1961bcd8, 0xcf773a5f, 0x019299a0, 0x0e43ed88, 0x6e78ef61, 0xee412d8b,
      0x9f9ec996, 0x7de71ccd, 0x80000000, 0x00000000, 0x00000000, 0x00000000,
      0x00000000, 0x00000000, 0x00000000, 0x00000300] =
     [0xd5e52c34, 0xef73eb5d, 0xf37c4795, 0x935b59e0, 0x9bf36a01, 0xdc7a9da3,
      0xf3ac2124, 0xa4910d91]"
  by code_simp

lemma hmac_a_outer_bytes:
  "concat (map be32_bytes
     [0xd5e52c34, 0xef73eb5d, 0xf37c4795, 0x935b59e0, 0x9bf36a01, 0xdc7a9da3,
      0xf3ac2124, 0xa4910d91]) =
     [0xd5, 0xe5, 0x2c, 0x34, 0xef, 0x73, 0xeb, 0x5d, 0xf3, 0x7c, 0x47, 0x95,
      0x93, 0x5b, 0x59, 0xe0, 0x9b, 0xf3, 0x6a, 0x01, 0xdc, 0x7a, 0x9d, 0xa3,
      0xf3, 0xac, 0x21, 0x24, 0xa4, 0x91, 0x0d, 0x91]"
  by code_simp

lemma hmac_a_outer:
  "sha256 (map (\<lambda>b. b XOR 0x5c) (hmac_key_block [0x61]) @
     [0x19, 0x61, 0xbc, 0xd8, 0xcf, 0x77, 0x3a, 0x5f, 0x01, 0x92, 0x99, 0xa0,
      0x0e, 0x43, 0xed, 0x88, 0x6e, 0x78, 0xef, 0x61, 0xee, 0x41, 0x2d, 0x8b,
      0x9f, 0x9e, 0xc9, 0x96, 0x7d, 0xe7, 0x1c, 0xcd]) =
     [0xd5, 0xe5, 0x2c, 0x34, 0xef, 0x73, 0xeb, 0x5d, 0xf3, 0x7c, 0x47, 0x95,
      0x93, 0x5b, 0x59, 0xe0, 0x9b, 0xf3, 0x6a, 0x01, 0xdc, 0x7a, 0x9d, 0xa3,
      0xf3, 0xac, 0x21, 0x24, 0xa4, 0x91, 0x0d, 0x91]"
proof -
  have "sha_blocks sha256_H0 (words_of (sha256_pad (map (\<lambda>b. b XOR 0x5c) (hmac_key_block [0x61]) @
     [0x19, 0x61, 0xbc, 0xd8, 0xcf, 0x77, 0x3a, 0x5f, 0x01, 0x92, 0x99, 0xa0,
      0x0e, 0x43, 0xed, 0x88, 0x6e, 0x78, 0xef, 0x61, 0xee, 0x41, 0x2d, 0x8b,
      0x9f, 0x9e, 0xc9, 0x96, 0x7d, 0xe7, 0x1c, 0xcd]))) =
     [0xd5e52c34, 0xef73eb5d, 0xf37c4795, 0x935b59e0, 0x9bf36a01, 0xdc7a9da3,
      0xf3ac2124, 0xa4910d91]"
    by (simp add: hmac_a_outer_words sha256_H0_def sha_blocks.simps hmac_a_outer_block1 hmac_a_outer_block2
        del: compress.simps)
  then show ?thesis
    by (simp only: sha256_def hmac_a_outer_bytes)
qed

lemma hmac_a:
  "hmac_sha256 [0x61] [0x7b, 0x7d] =
     [0xd5, 0xe5, 0x2c, 0x34, 0xef, 0x73, 0xeb, 0x5d, 0xf3, 0x7c, 0x47, 0x95,
      0x93, 0x5b, 0x59, 0xe0, 0x9b, 0xf3, 0x6a, 0x01, 0xdc, 0x7a, 0x9d, 0xa3,
      0xf3, 0xac, 0x21, 0x24, 0xa4, 0x91, 0x0d, 0x91]"
  by (simp only: hmac_sha256_def Let_def hmac_a_inner hmac_a_outer)

subsection \<open>The HMAC of \<open>{}\<close> under the key \<open>b\<close>\<close>

lemma hmac_b_inner_words:
  "words_of (sha256_pad (map (\<lambda>b. b XOR 0x36) (hmac_key_block [0x62]) @ [0x7b, 0x7d])) =
     [0x54363636, 0x36363636, 0x36363636, 0x36363636, 0x36363636, 0x36363636,
      0x36363636, 0x36363636, 0x36363636, 0x36363636, 0x36363636, 0x36363636,
      0x36363636, 0x36363636, 0x36363636, 0x36363636, 0x7b7d8000, 0x00000000,
      0x00000000, 0x00000000, 0x00000000, 0x00000000, 0x00000000, 0x00000000,
      0x00000000, 0x00000000, 0x00000000, 0x00000000, 0x00000000, 0x00000000,
      0x00000000, 0x00000210]"
  by code_simp

lemma hmac_b_inner_block1:
  "compress
     [0x6a09e667, 0xbb67ae85, 0x3c6ef372, 0xa54ff53a, 0x510e527f, 0x9b05688c,
      0x1f83d9ab, 0x5be0cd19]
     [0x54363636, 0x36363636, 0x36363636, 0x36363636, 0x36363636, 0x36363636,
      0x36363636, 0x36363636, 0x36363636, 0x36363636, 0x36363636, 0x36363636,
      0x36363636, 0x36363636, 0x36363636, 0x36363636] =
     [0xaf8dca67, 0x4c9f405b, 0x31340a6b, 0xb9229547, 0x1fd8ddbe, 0xe2097dfd,
      0x48e812f6, 0xedaf636f]"
  by code_simp

lemma hmac_b_inner_block2:
  "compress
     [0xaf8dca67, 0x4c9f405b, 0x31340a6b, 0xb9229547, 0x1fd8ddbe, 0xe2097dfd,
      0x48e812f6, 0xedaf636f]
     [0x7b7d8000, 0x00000000, 0x00000000, 0x00000000, 0x00000000, 0x00000000,
      0x00000000, 0x00000000, 0x00000000, 0x00000000, 0x00000000, 0x00000000,
      0x00000000, 0x00000000, 0x00000000, 0x00000210] =
     [0xa8089d86, 0x1472018a, 0x0e46b5c9, 0x2655cb1e, 0x07096988, 0x371a40c1,
      0xef98bce6, 0x098715a2]"
  by code_simp

lemma hmac_b_inner_bytes:
  "concat (map be32_bytes
     [0xa8089d86, 0x1472018a, 0x0e46b5c9, 0x2655cb1e, 0x07096988, 0x371a40c1,
      0xef98bce6, 0x098715a2]) =
     [0xa8, 0x08, 0x9d, 0x86, 0x14, 0x72, 0x01, 0x8a, 0x0e, 0x46, 0xb5, 0xc9,
      0x26, 0x55, 0xcb, 0x1e, 0x07, 0x09, 0x69, 0x88, 0x37, 0x1a, 0x40, 0xc1,
      0xef, 0x98, 0xbc, 0xe6, 0x09, 0x87, 0x15, 0xa2]"
  by code_simp

lemma hmac_b_inner:
  "sha256 (map (\<lambda>b. b XOR 0x36) (hmac_key_block [0x62]) @ [0x7b, 0x7d]) =
     [0xa8, 0x08, 0x9d, 0x86, 0x14, 0x72, 0x01, 0x8a, 0x0e, 0x46, 0xb5, 0xc9,
      0x26, 0x55, 0xcb, 0x1e, 0x07, 0x09, 0x69, 0x88, 0x37, 0x1a, 0x40, 0xc1,
      0xef, 0x98, 0xbc, 0xe6, 0x09, 0x87, 0x15, 0xa2]"
proof -
  have "sha_blocks sha256_H0 (words_of (sha256_pad (map (\<lambda>b. b XOR 0x36) (hmac_key_block [0x62]) @ [0x7b, 0x7d]))) =
     [0xa8089d86, 0x1472018a, 0x0e46b5c9, 0x2655cb1e, 0x07096988, 0x371a40c1,
      0xef98bce6, 0x098715a2]"
    by (simp add: hmac_b_inner_words sha256_H0_def sha_blocks.simps hmac_b_inner_block1 hmac_b_inner_block2
        del: compress.simps)
  then show ?thesis
    by (simp only: sha256_def hmac_b_inner_bytes)
qed

lemma hmac_b_outer_words:
  "words_of (sha256_pad (map (\<lambda>b. b XOR 0x5c) (hmac_key_block [0x62]) @
     [0xa8, 0x08, 0x9d, 0x86, 0x14, 0x72, 0x01, 0x8a, 0x0e, 0x46, 0xb5, 0xc9,
      0x26, 0x55, 0xcb, 0x1e, 0x07, 0x09, 0x69, 0x88, 0x37, 0x1a, 0x40, 0xc1,
      0xef, 0x98, 0xbc, 0xe6, 0x09, 0x87, 0x15, 0xa2])) =
     [0x3e5c5c5c, 0x5c5c5c5c, 0x5c5c5c5c, 0x5c5c5c5c, 0x5c5c5c5c, 0x5c5c5c5c,
      0x5c5c5c5c, 0x5c5c5c5c, 0x5c5c5c5c, 0x5c5c5c5c, 0x5c5c5c5c, 0x5c5c5c5c,
      0x5c5c5c5c, 0x5c5c5c5c, 0x5c5c5c5c, 0x5c5c5c5c, 0xa8089d86, 0x1472018a,
      0x0e46b5c9, 0x2655cb1e, 0x07096988, 0x371a40c1, 0xef98bce6, 0x098715a2,
      0x80000000, 0x00000000, 0x00000000, 0x00000000, 0x00000000, 0x00000000,
      0x00000000, 0x00000300]"
  by code_simp

lemma hmac_b_outer_block1:
  "compress
     [0x6a09e667, 0xbb67ae85, 0x3c6ef372, 0xa54ff53a, 0x510e527f, 0x9b05688c,
      0x1f83d9ab, 0x5be0cd19]
     [0x3e5c5c5c, 0x5c5c5c5c, 0x5c5c5c5c, 0x5c5c5c5c, 0x5c5c5c5c, 0x5c5c5c5c,
      0x5c5c5c5c, 0x5c5c5c5c, 0x5c5c5c5c, 0x5c5c5c5c, 0x5c5c5c5c, 0x5c5c5c5c,
      0x5c5c5c5c, 0x5c5c5c5c, 0x5c5c5c5c, 0x5c5c5c5c] =
     [0xbbdcd50c, 0x30665533, 0xf0c64e17, 0x06a4f174, 0x5d70c554, 0xcd05d061,
      0xaa655f15, 0x9a7e542a]"
  by code_simp

lemma hmac_b_outer_block2:
  "compress
     [0xbbdcd50c, 0x30665533, 0xf0c64e17, 0x06a4f174, 0x5d70c554, 0xcd05d061,
      0xaa655f15, 0x9a7e542a]
     [0xa8089d86, 0x1472018a, 0x0e46b5c9, 0x2655cb1e, 0x07096988, 0x371a40c1,
      0xef98bce6, 0x098715a2, 0x80000000, 0x00000000, 0x00000000, 0x00000000,
      0x00000000, 0x00000000, 0x00000000, 0x00000300] =
     [0x14c1a102, 0x0a9328eb, 0x4aae1d66, 0x52618d00, 0x195399e3, 0x66d452f8,
      0xcd52b467, 0xb0a1ebac]"
  by code_simp

lemma hmac_b_outer_bytes:
  "concat (map be32_bytes
     [0x14c1a102, 0x0a9328eb, 0x4aae1d66, 0x52618d00, 0x195399e3, 0x66d452f8,
      0xcd52b467, 0xb0a1ebac]) =
     [0x14, 0xc1, 0xa1, 0x02, 0x0a, 0x93, 0x28, 0xeb, 0x4a, 0xae, 0x1d, 0x66,
      0x52, 0x61, 0x8d, 0x00, 0x19, 0x53, 0x99, 0xe3, 0x66, 0xd4, 0x52, 0xf8,
      0xcd, 0x52, 0xb4, 0x67, 0xb0, 0xa1, 0xeb, 0xac]"
  by code_simp

lemma hmac_b_outer:
  "sha256 (map (\<lambda>b. b XOR 0x5c) (hmac_key_block [0x62]) @
     [0xa8, 0x08, 0x9d, 0x86, 0x14, 0x72, 0x01, 0x8a, 0x0e, 0x46, 0xb5, 0xc9,
      0x26, 0x55, 0xcb, 0x1e, 0x07, 0x09, 0x69, 0x88, 0x37, 0x1a, 0x40, 0xc1,
      0xef, 0x98, 0xbc, 0xe6, 0x09, 0x87, 0x15, 0xa2]) =
     [0x14, 0xc1, 0xa1, 0x02, 0x0a, 0x93, 0x28, 0xeb, 0x4a, 0xae, 0x1d, 0x66,
      0x52, 0x61, 0x8d, 0x00, 0x19, 0x53, 0x99, 0xe3, 0x66, 0xd4, 0x52, 0xf8,
      0xcd, 0x52, 0xb4, 0x67, 0xb0, 0xa1, 0xeb, 0xac]"
proof -
  have "sha_blocks sha256_H0 (words_of (sha256_pad (map (\<lambda>b. b XOR 0x5c) (hmac_key_block [0x62]) @
     [0xa8, 0x08, 0x9d, 0x86, 0x14, 0x72, 0x01, 0x8a, 0x0e, 0x46, 0xb5, 0xc9,
      0x26, 0x55, 0xcb, 0x1e, 0x07, 0x09, 0x69, 0x88, 0x37, 0x1a, 0x40, 0xc1,
      0xef, 0x98, 0xbc, 0xe6, 0x09, 0x87, 0x15, 0xa2]))) =
     [0x14c1a102, 0x0a9328eb, 0x4aae1d66, 0x52618d00, 0x195399e3, 0x66d452f8,
      0xcd52b467, 0xb0a1ebac]"
    by (simp add: hmac_b_outer_words sha256_H0_def sha_blocks.simps hmac_b_outer_block1 hmac_b_outer_block2
        del: compress.simps)
  then show ?thesis
    by (simp only: sha256_def hmac_b_outer_bytes)
qed

lemma hmac_b:
  "hmac_sha256 [0x62] [0x7b, 0x7d] =
     [0x14, 0xc1, 0xa1, 0x02, 0x0a, 0x93, 0x28, 0xeb, 0x4a, 0xae, 0x1d, 0x66,
      0x52, 0x61, 0x8d, 0x00, 0x19, 0x53, 0x99, 0xe3, 0x66, 0xd4, 0x52, 0xf8,
      0xcd, 0x52, 0xb4, 0x67, 0xb0, 0xa1, 0xeb, 0xac]"
  by (simp only: hmac_sha256_def Let_def hmac_b_inner hmac_b_outer)

section \<open>Properties of the signature verifier\<close>

subsection \<open>The hexadecimal digest determines the octets\<close>

lemma hexchar_inj: "hexchar a = hexchar b \<Longrightarrow> a = b"
  by (auto simp: hexchar_def word_less_nat_alt split: if_splits intro: unsigned_word_eqI)

lemma nibbles_eq:
  fixes a b :: byte
  assumes "drop_bit 4 a = drop_bit 4 b" and "a AND 15 = b AND 15"
  shows "a = b"
proof -
  have m: "(15 :: byte) = mask 4" by (simp add: mask_eq_exp_minus_1)
  have "a = push_bit 4 (drop_bit 4 a) + take_bit 4 a" by (simp add: bits_ident)
  also have "\<dots> = push_bit 4 (drop_bit 4 b) + take_bit 4 b"
    using assms by (simp add: take_bit_eq_mask m)
  also have "\<dots> = b" by (simp add: bits_ident)
  finally show ?thesis .
qed

lemma hexdigest_inj: "hexdigest xs = hexdigest ys \<Longrightarrow> xs = ys"
proof (induction xs arbitrary: ys)
  case Nil
  then show ?case by (cases ys) (simp_all add: hexdigest_def)
next
  case (Cons x xs)
  then obtain y ys' where ys: "ys = y # ys'" by (cases ys) (auto simp: hexdigest_def)
  from Cons.prems ys have h: "hexchar (drop_bit 4 x) = hexchar (drop_bit 4 y)"
    "hexchar (x AND 15) = hexchar (y AND 15)" "hexdigest xs = hexdigest ys'"
    by (simp_all add: hexdigest_def)
  then have "x = y" by (meson hexchar_inj nibbles_eq)
  with Cons.IH h(3) ys show ?case by simp
qed

lemma nibble_hi: "unat (drop_bit 4 (b :: byte)) < 16"
proof -
  have "unat (drop_bit 4 b) = unat b div 16" by (simp add: drop_bit_eq_div unat_div)
  moreover have "unat b < 2 ^ LENGTH(8)" by (rule unsigned_less)
  ultimately show ?thesis by simp
qed

lemma nibble_lo: "unat ((b :: byte) AND 15) < 16"
proof -
  have "unat (b AND 15) \<le> unat (15 :: byte)"
    by (rule word_and_le1 [THEN word_le_nat_alt [THEN iffD1]])
  then show ?thesis by simp
qed

lemma hexchar_ascii: "unat n < 16 \<Longrightarrow> hexchar n < 128"
  by (simp add: hexchar_def)

lemma hexdigest_ascii: "list_all (\<lambda>c. c < 128) (hexdigest bs)"
  by (induction bs) (simp_all add: hexdigest_def hexchar_ascii nibble_hi nibble_lo)

lemma startswith_append: "startswith (p @ s) p"
  by (simp add: startswith_def)

text \<open>
  A header made of the prefix and the hexadecimal form of 32 octets \<open>d\<close> passes exactly
  when \<open>d\<close> is the HMAC of the payload under the configured secret.
\<close>

lemma verify_signed:
  assumes "secret \<noteq> []"
  shows "verify_github_signature secret payload (lit ''sha256='' @ hexdigest d) =
     (case utf8_encode secret of Inl e \<Rightarrow> False | Inr key \<Rightarrow> hmac_sha256 key payload = d)"
proof -
  have l: "length (lit ''sha256='') = 7" by (simp add: lit_def)
  show ?thesis
    using assms
    by (auto simp: verify_github_signature_def startswith_append compare_digest_def l
        hexdigest_ascii Let_def dest: hexdigest_inj split: sum.splits)
qed

subsection \<open>The sample secrets\<close>

lemma utf8_ascii: "list_all (\<lambda>c. c < 128) s \<Longrightarrow> utf8_encode s = Inr (map of_nat s)"
  by (induction s) (simp_all add: utf8_char_def)

lemma utf8_a: "utf8_encode (lit ''a'') = Inr [0x61]"
  by (simp add: lit_def utf8_char_def)

lemma utf8_b: "utf8_encode (lit ''b'') = Inr [0x62]"
  by (simp add: lit_def utf8_char_def)

lemma utf8_long_secret: "utf8_encode long_secret = Inr long_key"
proof -
  have "list_all (\<lambda>c. c < 128) long_secret"
    by (simp add: long_secret_def lit_def list_all_iff)
  then have "utf8_encode long_secret = Inr (map of_nat long_secret)"
    by (rule utf8_ascii)
  moreover have "map of_nat long_secret = long_key"
    by (simp add: long_secret_def long_key_def lit_def)
  ultimately show ?thesis by simp
qed

lemma utf8_digest_secret: "utf8_encode digest_secret = Inr digest_key"
  by (simp add: digest_secret_def digest_key_def utf8_char_def)

lemma length_long_key: "length long_key = 70"
  by (simp add: long_key_def)

lemma length_digest_key: "length digest_key = 32"
  by (simp add: digest_key_def)

text \<open>
  A key of more than 64 octets is replaced by its digest, so the long key and the digest
  key fill the same block.
\<close>

lemma key_blocks_collide: "hmac_key_block digest_key = hmac_key_block long_key"
  by (simp add: hmac_key_block_def Let_def length_long_key length_digest_key sha256_long_key)

lemma hmac_collide: "hmac_sha256 digest_key m = hmac_sha256 long_key m"
  by (simp add: hmac_sha256_def key_blocks_collide)

lemma secrets_differ: "digest_secret \<noteq> long_secret"
proof
  assume "digest_secret = long_secret"
  then have "length digest_secret = length long_secret" by simp
  then show False by (simp add: digest_secret_def long_secret_def lit_def)
qed

lemma header_of_a:
  "hexdigest (hmac_sha256 [0x61] [0x7b, 0x7d]) =
     lit ''d5e52c34ef73eb5df37c4795935b59e09bf36a01dc7a9da3f3ac2124a4910d91''"
proof -
  have "hexdigest (hmac_sha256 [0x61] [0x7b, 0x7d]) = hexdigest
     [0xd5, 0xe5, 0x2c, 0x34, 0xef, 0x73, 0xeb, 0x5d, 0xf3, 0x7c, 0x47, 0x95,
      0x93, 0x5b, 0x59, 0xe0, 0x9b, 0xf3, 0x6a, 0x01, 0xdc, 0x7a, 0x9d, 0xa3,
      0xf3, 0xac, 0x21, 0x24, 0xa4, 0x91, 0x0d, 0x91]"
    by (simp only: hmac_a)
  also have "\<dots> = lit ''d5e52c34ef73eb5df37c4795935b59e09bf36a01dc7a9da3f3ac2124a4910d91''"
    by code_simp
  finally show ?thesis .
qed

text \<open>
  C1, as the code has it. For a non-empty secret \<open>S\<close> with UTF-8 form \<open>key\<close>, the header
  \<open>"sha256=" + hex(HMAC-SHA256(S, P))\<close> verifies under \<open>S\<close>. Under another non-empty
  secret \<open>S'\<close> the same header verifies exactly when \<open>S'\<close> can be encoded and gives the
  same HMAC for \<open>P\<close>; so it is rejected whenever the two digests differ, and not for
  every \<open>S' \<noteq> S\<close>.
\<close>

theorem verify_round_trip:
  assumes "secret \<noteq> []" and "secret' \<noteq> []" and "utf8_encode secret = Inr key"
  shows "verify_github_signature secret payload
           (lit ''sha256='' @ hexdigest (hmac_sha256 key payload)) = True
       \<and> verify_github_signature secret' payload
           (lit ''sha256='' @ hexdigest (hmac_sha256 key payload)) =
         (case utf8_encode secret' of
            Inl e \<Rightarrow> False
          | Inr key' \<Rightarrow> hmac_sha256 key' payload = hmac_sha256 key payload)"
  using assms by (simp add: verify_signed)

text \<open>
  The worked example: the body \<open>{}\<close> signed with the secret \<open>a\<close> is accepted when the
  configured secret is \<open>a\<close> and rejected when it is \<open>b\<close>.
\<close>

theorem verify_round_trip_witness:
  "lit ''a'' \<noteq> [] \<and> lit ''b'' \<noteq> [] \<and> utf8_encode (lit ''a'') = Inr [0x61]
   \<and> hexdigest (hmac_sha256 [0x61] [0x7b, 0x7d]) =
       lit ''d5e52c34ef73eb5df37c4795935b59e09bf36a01dc7a9da3f3ac2124a4910d91''
   \<and> verify_github_signature (lit ''a'') [0x7b, 0x7d]
       (lit ''sha256='' @ hexdigest (hmac_sha256 [0x61] [0x7b, 0x7d])) = True
   \<and> verify_github_signature (lit ''b'') [0x7b, 0x7d]
       (lit ''sha256='' @ hexdigest (hmac_sha256 [0x61] [0x7b, 0x7d])) = False"
proof -
  have a: "lit ''a'' \<noteq> []" by (simp add: lit_def)
  have b: "lit ''b'' \<noteq> []" by (simp add: lit_def)
  have d: "hmac_sha256 [0x62] [0x7b, 0x7d] \<noteq> hmac_sha256 [0x61] [0x7b, 0x7d]"
    by (simp add: hmac_a hmac_b)
  from verify_round_trip [OF a b utf8_a, of "[0x7b, 0x7d]"] d
  have "verify_github_signature (lit ''a'') [0x7b, 0x7d]
          (lit ''sha256='' @ hexdigest (hmac_sha256 [0x61] [0x7b, 0x7d])) = True
      \<and> verify_github_signature (lit ''b'') [0x7b, 0x7d]
          (lit ''sha256='' @ hexdigest (hmac_sha256 [0x61] [0x7b, 0x7d])) = False"
    by (simp add: utf8_b)
  with a b utf8_a header_of_a show ?thesis by blast
qed

text \<open>
  C1 as stated fails: the two sample secrets are different, non-empty and free of the
  code point 0 (so each can be the value of an environment variable), and a header signed
  with the long one is accepted when the configured secret is the other.
\<close>

theorem verify_other_secret_counterexample:
  "digest_secret \<noteq> long_secret \<and> digest_secret \<noteq> [] \<and> long_secret \<noteq> []
   \<and> 0 \<notin> set long_secret \<and> 0 \<notin> set digest_secret
   \<and> utf8_encode long_secret = Inr long_key
   \<and> verify_github_signature long_secret [0x7b, 0x7d]
       (lit ''sha256='' @ hexdigest (hmac_sha256 long_key [0x7b, 0x7d])) = True
   \<and> verify_github_signature digest_secret [0x7b, 0x7d]
       (lit ''sha256='' @ hexdigest (hmac_sha256 long_key [0x7b, 0x7d])) = True"
proof -
  have n: "digest_secret \<noteq> []" by (simp add: digest_secret_def)
  have m: "long_secret \<noteq> []" by (simp add: long_secret_def lit_def)
  have z: "0 \<notin> set long_secret \<and> 0 \<notin> set digest_secret"
    by (simp add: long_secret_def digest_secret_def lit_def)
  have l: "verify_github_signature long_secret [0x7b, 0x7d]
          (lit ''sha256='' @ hexdigest (hmac_sha256 long_key [0x7b, 0x7d])) = True"
    by (simp add: verify_signed m utf8_long_secret)
  have "verify_github_signature digest_secret [0x7b, 0x7d]
          (lit ''sha256='' @ hexdigest (hmac_sha256 long_key [0x7b, 0x7d])) = True"
    by (simp add: verify_signed n utf8_digest_secret hmac_collide)
  with secrets_differ n m z utf8_long_secret l show ?thesis by blast
qed

text \<open>
  C2, as the code has it. For a header that does not start with \<open>"sha256="\<close> the verifier
  returns \<open>False\<close> under every non-empty secret; with an empty secret the check is switched
  off and it returns \<open>True\<close>.
\<close>

theorem verify_missing_prefix:
  assumes "\<not> startswith signature (lit ''sha256='')"
  shows "verify_github_signature secret payload signature = (secret = [])"
  using assms by (simp add: verify_github_signature_def)

theorem verify_missing_prefix_witness:
  "\<not> startswith (lit ''sha1=abc'') (lit ''sha256='')
   \<and> verify_github_signature (lit ''s3cret'') [1, 2] (lit ''sha1=abc'') = False
   \<and> verify_github_signature [] [1, 2] (lit ''sha1=abc'') = True"
proof -
  have h: "\<not> startswith (lit ''sha1=abc'') (lit ''sha256='')"
    by (simp add: startswith_def lit_def)
  show ?thesis
    using h verify_missing_prefix [OF h, of "lit ''s3cret''" "[1, 2]"]
      verify_missing_prefix [OF h, of "[]" "[1, 2]"]
    by (simp add: lit_def)
qed

text \<open>
  C2 as stated fails for the empty secret: the header \<open>""\<close> has no prefix and is accepted.
\<close>

theorem verify_missing_prefix_counterexample:
  "\<not> startswith [] (lit ''sha256='') \<and> verify_github_signature [] [] [] = True"
  by (simp add: startswith_def lit_def verify_github_signature_def)

subsection \<open>The length of a digest\<close>

lemma length_compress: "length (compress hs blk) = length hs"
  by (induction hs blk rule: compress.induct) (simp_all split: prod.splits)

lemma length_sha_blocks: "length (sha_blocks hs ws) = length hs"
proof (induction hs ws rule: sha_blocks.induct)
  case (1 hs ws)
  then show ?case
    by (subst sha_blocks.simps) (simp add: length_compress)
qed

lemma length_be32_bytes: "length (concat (map be32_bytes ws)) = 4 * length ws"
  by (induction ws) (simp_all add: be32_bytes_def)

lemma length_sha256: "length (sha256 m) = 32"
  by (simp add: sha256_def length_be32_bytes length_sha_blocks sha256_H0_def)

lemma length_hexdigest: "length (hexdigest bs) = 2 * length bs"
  by (induction bs) (simp_all add: hexdigest_def)

lemma length_hmac: "length (hmac_sha256 key msg) = 32"
  by (simp add: hmac_sha256_def Let_def length_sha256)

lemma startswith_length: "startswith s p \<Longrightarrow> length p \<le> length s"
proof -
  assume "startswith s p"
  then have "length (take (length p) s) = length p" by (simp add: startswith_def)
  then show ?thesis by simp
qed

lemma verify_wrong_length:
  assumes "secret \<noteq> []" and "length signature \<noteq> 71"
  shows "verify_github_signature secret payload signature = False"
proof (cases "startswith signature (lit ''sha256='')")
  case False
  with assms(1) show ?thesis by (simp add: verify_github_signature_def)
next
  case True
  then have len: "7 \<le> length signature"
    using startswith_length [of signature "lit ''sha256=''"] by (simp add: lit_def)
  have ne: "hexdigest (hmac_sha256 key payload) \<noteq> drop 7 signature" for key
  proof
    assume "hexdigest (hmac_sha256 key payload) = drop 7 signature"
    then have "length (hexdigest (hmac_sha256 key payload)) = length (drop 7 signature)"
      by simp
    with assms(2) len show False by (simp add: length_hexdigest length_hmac)
  qed
  show ?thesis
    using assms(1) True
    by (simp add: verify_github_signature_def compare_digest_def ne Let_def split: sum.splits)
qed


section \<open>Properties of the endpoint\<close>

text \<open>
  C3. When the signature check fails the endpoint answers 401; the queue of background
  tasks is returned as it was, so no task is scheduled and nothing is rendered or sent;
  and the answer does not depend on the JSON decoder, which is never consulted.
\<close>

theorem invalid_signature_rejected:
  assumes "\<not> verify_github_signature secret (raw_body req)
               (case x_hub_signature_256 req of None \<Rightarrow> [] | Some h \<Rightarrow> h)"
  shows "status_code (fst (github_webhook secret loads req background_tasks)) = 401
       \<and> snd (github_webhook secret loads req background_tasks) = background_tasks
       \<and> github_webhook secret loads req background_tasks =
           github_webhook secret loads' req background_tasks"
  using assms by (simp add: github_webhook_def http_exception_def Let_def)

lemma bad_header_fails:
  "\<not> verify_github_signature (lit ''s3cret'') [0x7B, 0x7D] (lit ''sha256=deadbeef'')"
  by (simp add: verify_wrong_length lit_def)

theorem invalid_signature_rejected_witness:
  "\<not> verify_github_signature (lit ''s3cret'') [0x7B, 0x7D] (lit ''sha256=deadbeef'')
   \<and> status_code (fst (github_webhook (lit ''s3cret'') (\<lambda>b. Decoded (JDict []))
        \<lparr>raw_body = [0x7B, 0x7D], x_hub_signature_256 = Some (lit ''sha256=deadbeef''),
         x_github_event = Some (lit ''push'')\<rparr> [])) = 401
   \<and> snd (github_webhook (lit ''s3cret'') (\<lambda>b. Decoded (JDict []))
        \<lparr>raw_body = [0x7B, 0x7D], x_hub_signature_256 = Some (lit ''sha256=deadbeef''),
         x_github_event = Some (lit ''push'')\<rparr> []) = []"
  using bad_header_fails invalid_signature_rejected [of "lit ''s3cret''"
        "\<lparr>raw_body = [0x7B, 0x7D], x_hub_signature_256 = Some (lit ''sha256=deadbeef''),
          x_github_event = Some (lit ''push'')\<rparr>" "\<lambda>b. Decoded (JDict [])" "[]"]
  by simp

section \<open>Properties of the dispatcher\<close>

text \<open>
  C9, as the code has it. Without a target channel \<open>send_github_notification\<close> returns
  \<open>False\<close> and calls nothing. With a channel it calls \<open>send\<close> exactly once, whatever
  the outcome, so nothing is tried again. It returns \<open>True\<close> exactly when that call was
  delivered, and \<open>False\<close> exactly when the call raised \<open>Forbidden\<close>, \<open>HTTPException\<close> or
  another exception derived from \<open>Exception\<close>. An exception that is not derived from
  \<open>Exception\<close> is not caught: it leaves the function.
\<close>

theorem dispatch_outcomes:
  "(target_channel self = None \<longrightarrow> send_github_notification self e = (Returned False, self))
   \<and> (target_channel self = Some ch \<longrightarrow>
        (fst (send_github_notification self e) = Returned True) =
          (answers ch (length (calls ch)) = Delivered)
      \<and> (fst (send_github_notification self e) = Returned False) =
          (answers ch (length (calls ch)) = Forbidden
           \<or> answers ch (length (calls ch)) = HTTPException
           \<or> answers ch (length (calls ch)) = OtherException)
      \<and> (fst (send_github_notification self e) = Propagated) =
          (answers ch (length (calls ch)) = OtherBaseException)
      \<and> target_channel (snd (send_github_notification self e)) =
          Some (ch\<lparr>calls := calls ch @ [e]\<rparr>)
      \<and> sends_made (snd (send_github_notification self e)) = sends_made self + 1)"
  by (cases "answers ch (length (calls ch))")
     (simp_all add: send_github_notification_def channel_send_def sends_made_def)

theorem dispatch_outcomes_witness:
  "send_github_notification \<lparr>target_channel = None\<rparr> (Embed [] [] 0 JNull) =
     (Returned False, \<lparr>target_channel = None\<rparr>)
   \<and> fst (send_github_notification
        \<lparr>target_channel = Some \<lparr>answers = (\<lambda>k. Forbidden), calls = []\<rparr>\<rparr>
        (Embed [] [] 0 JNull)) = Returned False
   \<and> sends_made (snd (send_github_notification
        \<lparr>target_channel = Some \<lparr>answers = (\<lambda>k. Forbidden), calls = []\<rparr>\<rparr>
        (Embed [] [] 0 JNull))) = 1
   \<and> fst (send_github_notification
        \<lparr>target_channel = Some \<lparr>answers = (\<lambda>k. Delivered), calls = []\<rparr>\<rparr>
        (Embed [] [] 0 JNull)) = Returned True
   \<and> fst (send_github_notification
        \<lparr>target_channel = Some \<lparr>answers = (\<lambda>k. OtherBaseException), calls = []\<rparr>\<rparr>
        (Embed [] [] 0 JNull)) = Propagated"
  using dispatch_outcomes [of "\<lparr>target_channel = None\<rparr>" "Embed [] [] 0 JNull"]
    dispatch_outcomes [of "\<lparr>target_channel = Some \<lparr>answers = (\<lambda>k. Forbidden), calls = []\<rparr>\<rparr>"
      "Embed [] [] 0 JNull" "\<lparr>answers = (\<lambda>k. Forbidden), calls = []\<rparr>"]
    dispatch_outcomes [of "\<lparr>target_channel = Some \<lparr>answers = (\<lambda>k. Delivered), calls = []\<rparr>\<rparr>"
      "Embed [] [] 0 JNull" "\<lparr>answers = (\<lambda>k. Delivered), calls = []\<rparr>"]
    dispatch_outcomes [of
      "\<lparr>target_channel = Some \<lparr>answers = (\<lambda>k. OtherBaseException), calls = []\<rparr>\<rparr>"
      "Embed [] [] 0 JNull" "\<lparr>answers = (\<lambda>k. OtherBaseException), calls = []\<rparr>"]
  by (simp add: sends_made_def)

text \<open>
  C9 as stated fails for an exception that is not derived from \<open>Exception\<close>: when the
  call of \<open>send\<close> is cancelled, \<open>send_github_notification\<close> does not return \<open>False\<close>;
  the exception leaves it.
\<close>

theorem dispatch_cancelled_counterexample:
  "fst (send_github_notification
          \<lparr>target_channel = Some \<lparr>answers = (\<lambda>k. OtherBaseException), calls = []\<rparr>\<rparr>
          (Embed [] [] 0 JNull)) = Propagated
   \<and> fst (send_github_notification
          \<lparr>target_channel = Some \<lparr>answers = (\<lambda>k. OtherBaseException), calls = []\<rparr>\<rparr>
          (Embed [] [] 0 JNull)) \<noteq> Returned False"
  by (simp add: send_github_notification_def channel_send_def)

section \<open>Properties of the renderer\<close>

lemma seq_Inr_iff: "(seq r f = Inr y) = (\<exists>v. r = Inr v \<and> f v = Inr y)"
  by (cases r) (simp_all add: seq_def)

lemma catch_Some_iff: "(catch r = Some v) = (r = Inr v)"
  by (cases r) (simp_all add: catch_def)

lemma catch_Inl: "catch (Inl err) = None"
  by (simp add: catch_def)

lemma render_push:
  "create_event_embed lib now (lit ''push'') p = catch (create_push_embed lib now p)"
  by (simp add: create_event_embed_def)

lemma render_pull_request:
  "create_event_embed lib now (lit ''pull_request'') p =
     catch (create_pull_request_embed lib now p)"
  by (simp add: create_event_embed_def lit_def)

lemma render_issues:
  "create_event_embed lib now (lit ''issues'') p = catch (create_issue_embed lib now p)"
  by (simp add: create_event_embed_def lit_def)

lemma render_release:
  "create_event_embed lib now (lit ''release'') p = catch (create_release_embed lib now p)"
  by (simp add: create_event_embed_def lit_def)

lemma render_create:
  "create_event_embed lib now (lit ''create'') p = catch (create_create_embed lib now p)"
  by (simp add: create_event_embed_def lit_def)

lemma render_delete:
  "create_event_embed lib now (lit ''delete'') p = catch (create_delete_embed lib now p)"
  by (simp add: create_event_embed_def lit_def)

lemma render_unsupported:
  "event_type \<notin> set supported_events \<Longrightarrow> create_event_embed lib now event_type p = None"
  by (simp add: create_event_embed_def supported_events_def)

lemma title_add_field [simp]: "title (add_field e n v i) = title e"
  by (simp add: add_field_def)

lemma title_set_author [simp]: "title (set_author e n i) = title e"
  by (simp add: set_author_def)

lemma title_set_footer [simp]: "title (set_footer e t) = title e"
  by (simp add: set_footer_def)

lemma title_set_timestamp [simp]: "title (set_timestamp e t) = title e"
  by (simp add: set_timestamp_def)

lemma title_Embed [simp]: "title (Embed t d c u) = t"
  by (simp add: Embed_def)

lemma push_title:
  assumes "create_push_embed lib now payload = Inr e"
    and "py_get payload (lit ''ref'') (JStr []) = Inr (JStr ref)"
  shows "title e = 0x1F4DD # lit '' New Push to '' @
           (if startswith ref (lit ''refs/heads/'') then py_replace (lit ''refs/heads/'') [] ref
            else ref)"
  using assms
  by (auto simp: create_push_embed_def seq_Inr_iff Let_def branch_of_ref_def split: if_splits)


lemma lit_eq_iff [simp]: "(lit a = lit b) = (a = b)"
  by (simp add: lit_def inj_map_eq_map [OF inj_of_char])

lemma lit_Nil [simp]: "lit [] = []"
  by (simp add: lit_def)

lemma lit_eq_Nil [simp]: "(lit a = []) = (a = [])"
  by (simp add: lit_def)

lemma length_lit [simp]: "length (lit a) = length a"
  by (simp add: lit_def)

lemma lit_append: "lit (a @ b) = lit a @ lit b"
  by (simp add: lit_def)

lemma branch_eval:
  "branch_of_ref (JStr (lit ''refs/heads/a/refs/heads/b'')) = Inr (lit ''a/b'')"
  by (simp add: branch_of_ref_def startswith_def lit_def py_replace.simps)


text \<open>
  C7 (the code departs from the claim). The ref \<open>refs/heads/a/refs/heads/b\<close> starts with
  the prefix, and without that one prefix it reads \<open>a/refs/heads/b\<close>, the name of the
  branch; \<open>str.replace\<close> removes the second occurrence as well, and the title shows
  \<open>a/b\<close>.
\<close>

theorem push_branch_failing_input:
  "startswith (lit ''refs/heads/a/refs/heads/b'') (lit ''refs/heads/'')
   \<and> drop (length (lit ''refs/heads/'')) (lit ''refs/heads/a/refs/heads/b'') =
       lit ''a/refs/heads/b''
   \<and> map_option title
       (create_event_embed plain_lib 0 (lit ''push'')
          (JDict [(lit ''ref'', JStr (lit ''refs/heads/a/refs/heads/b''))])) =
     Some (0x1F4DD # lit '' New Push to a/b'')"
proof -
  have "startswith (lit ''refs/heads/a/refs/heads/b'') (lit ''refs/heads/'')"
    by (simp add: startswith_def lit_def)
  moreover have "drop (length (lit ''refs/heads/'')) (lit ''refs/heads/a/refs/heads/b'') =
      lit ''a/refs/heads/b''"
    by (simp add: lit_def)
  moreover have "map_option title
       (create_event_embed plain_lib 0 (lit ''push'')
          (JDict [(lit ''ref'', JStr (lit ''refs/heads/a/refs/heads/b''))])) =
     Some (0x1F4DD # lit '' New Push to a/b'')"
    by (simp add: render_push create_push_embed_def branch_eval seq_def py_get_def
        repository_link_def catch_def Let_def lit_append [symmetric])
  ultimately show ?thesis by blast
qed

lemma fields_add_field [simp]:
  "embed_fields (add_field e n v i) =
     embed_fields e @ [\<lparr>field_name = n, field_value = v, field_inline = i\<rparr>]"
  by (simp add: add_field_def)

lemma fields_set_author [simp]: "embed_fields (set_author e n i) = embed_fields e"
  by (simp add: set_author_def)

lemma fields_set_footer [simp]: "embed_fields (set_footer e t) = embed_fields e"
  by (simp add: set_footer_def)

lemma fields_set_timestamp [simp]: "embed_fields (set_timestamp e t) = embed_fields e"
  by (simp add: set_timestamp_def)

lemma fields_Embed [simp]: "embed_fields (Embed t d c u) = []"
  by (simp add: Embed_def)

lemma truncated_str:
  "truncated cap (JStr s) =
     Inr (JStr (if cap < length s then take (cap - 3) s @ lit ''...'' else s))"
  by (simp add: truncated_def seq_def py_slice_to_def py_add_dots_def)

lemma pr_description:
  assumes "create_pull_request_embed lib now payload = Inr e"
    and "py_get payload (lit ''pull_request'') (JDict []) = Inr pr"
    and "py_get pr (lit ''body'') (JStr []) = Inr (JStr body)"
  shows "field_named (lit ''Description'') e =
           (if body = [] then None
            else Some (JStr (if 500 < length body then take 497 body @ lit ''...'' else body)))"
  using assms
  by (auto simp: create_pull_request_embed_def seq_Inr_iff Let_def truncated_str field_named_def
      lit_def add_field_def set_author_def set_footer_def set_timestamp_def Embed_def
      split: if_splits)

lemma release_description:
  assumes "create_release_embed lib now payload = Inr e"
    and "py_get payload (lit ''release'') (JDict []) = Inr release"
    and "py_get release (lit ''body'') (JStr []) = Inr (JStr body)"
  shows "field_named (lit ''Description'') e =
           (if body = [] then None
            else Some (JStr (if 500 < length body then take 497 body @ lit ''...'' else body)))"
  using assms
  by (auto simp: create_release_embed_def seq_Inr_iff Let_def truncated_str field_named_def
      lit_def add_field_def set_author_def set_footer_def set_timestamp_def Embed_def
      split: if_splits)


lemma map_err_length: "map_err f xs = Inr ys \<Longrightarrow> length ys = length xs"
  by (induction xs arbitrary: ys) (auto simp: seq_Inr_iff)

lemma the_strs_Inr: "the_strs vs = Inr ss \<Longrightarrow> vs = map JStr ss"
  by (induction vs arbitrary: ss rule: the_strs.induct) (auto simp: seq_Inr_iff)

lemma issue_labels:
  assumes "create_issue_embed lib now payload = Inr e"
    and "py_get payload (lit ''issue'') (JDict []) = Inr issue"
    and "py_get issue (lit ''labels'') (JList []) = Inr (JList ls)"
  shows "if ls = [] then field_named (lit ''Labels'') e = None
         else (\<exists>names.
                 map_err (\<lambda>label. py_get label (lit ''name'') (JStr [])) (take 5 ls) =
                   Inr (map JStr names)
               \<and> field_named (lit ''Labels'') e = Some (JStr (join (lit '', '') names)))"
  using assms
  by (auto simp: create_issue_embed_def seq_Inr_iff Let_def field_named_def py_slice_to_def
      py_iter_def py_join_def lit_def add_field_def set_author_def set_footer_def
      set_timestamp_def Embed_def
      split: if_splits dest!: the_strs_Inr)

lemma seq_map_cong:
  "(\<And>v. map_sum id h (f v) = map_sum id h (g v)) \<Longrightarrow>
   map_sum id h (seq r f) = map_sum id h (seq r g)"
  by (cases r) (simp_all add: seq_def)

lemma push_clock:
  "map_sum id (\<lambda>e. e\<lparr>timestamp := None\<rparr>) (create_push_embed lib t1 p) =
   map_sum id (\<lambda>e. e\<lparr>timestamp := None\<rparr>) (create_push_embed lib t2 p)"
  unfolding create_push_embed_def Let_def
  by (intro seq_map_cong) (simp add: set_timestamp_def)

lemma pull_request_clock:
  "map_sum id (\<lambda>e. e\<lparr>timestamp := None\<rparr>) (create_pull_request_embed lib t1 p) =
   map_sum id (\<lambda>e. e\<lparr>timestamp := None\<rparr>) (create_pull_request_embed lib t2 p)"
  unfolding create_pull_request_embed_def Let_def
  by (intro seq_map_cong) (simp add: set_timestamp_def)

lemma issue_clock:
  "map_sum id (\<lambda>e. e\<lparr>timestamp := None\<rparr>) (create_issue_embed lib t1 p) =
   map_sum id (\<lambda>e. e\<lparr>timestamp := None\<rparr>) (create_issue_embed lib t2 p)"
  unfolding create_issue_embed_def Let_def
  by (intro seq_map_cong) (simp add: set_timestamp_def)

lemma release_clock:
  "map_sum id (\<lambda>e. e\<lparr>timestamp := None\<rparr>) (create_release_embed lib t1 p) =
   map_sum id (\<lambda>e. e\<lparr>timestamp := None\<rparr>) (create_release_embed lib t2 p)"
  unfolding create_release_embed_def Let_def
  by (intro seq_map_cong) (simp add: set_timestamp_def)

lemma create_clock:
  "map_sum id (\<lambda>e. e\<lparr>timestamp := None\<rparr>) (create_create_embed lib t1 p) =
   map_sum id (\<lambda>e. e\<lparr>timestamp := None\<rparr>) (create_create_embed lib t2 p)"
  unfolding create_create_embed_def Let_def
  by (intro seq_map_cong) (simp add: set_timestamp_def)

lemma delete_clock:
  "map_sum id (\<lambda>e. e\<lparr>timestamp := None\<rparr>) (create_delete_embed lib t1 p) =
   map_sum id (\<lambda>e. e\<lparr>timestamp := None\<rparr>) (create_delete_embed lib t2 p)"
  unfolding create_delete_embed_def Let_def
  by (intro seq_map_cong) (simp add: set_timestamp_def)

lemma catch_map: "map_option h (catch r) = catch (map_sum id h r)"
  by (cases r) (simp_all add: catch_def)

lemma render_clock:
  "map_option (\<lambda>e. e\<lparr>timestamp := None\<rparr>) (create_event_embed lib t1 ev p) =
   map_option (\<lambda>e. e\<lparr>timestamp := None\<rparr>) (create_event_embed lib t2 ev p)"
  by (simp add: create_event_embed_def catch_map push_clock [of lib t1 p t2]
      pull_request_clock [of lib t1 p t2] issue_clock [of lib t1 p t2]
      release_clock [of lib t1 p t2] create_clock [of lib t1 p t2]
      delete_clock [of lib t1 p t2])

lemma branch_main: "branch_of_ref (JStr (lit ''refs/heads/main'')) = Inr (lit ''main'')"
  by (simp add: branch_of_ref_def startswith_def lit_def py_replace.simps)

lemma str_of_nat_1: "str_of_nat (Suc 0) = lit ''1''"
  by (simp add: str_of_nat.simps lit_def)

lemma push_scenario:
  "create_event_embed plain_lib now (lit ''push'') spec_push_payload =
     Some \<lparr>title = 0x1F4DD # lit '' New Push to main'',
           description = lit ''**1 commit(s)** pushed to `r`'',
           color = 0x28a745,
           url = JStr [],
           embed_fields =
             [\<lparr>field_name = lit ''Repository'', field_value = JStr (lit ''[Unknown](#)''),
               field_inline = True\<rparr>,
              \<lparr>field_name = lit ''Pushed by'', field_value = JStr (lit ''u''),
               field_inline = True\<rparr>,
              \<lparr>field_name = lit ''Commits'', field_value = JStr (lit ''1''),
               field_inline = True\<rparr>,
              \<lparr>field_name = lit ''Latest Commit'', field_value = JStr (lit ''[m](x)''),
               field_inline = False\<rparr>],
           author = Some (JStr (lit ''u''), JStr []),
           footer = Some (lit ''Patchy - GitHub Push Event''),
           timestamp = Some now\<rparr>"
  by (simp add: render_push create_push_embed_def spec_push_payload_def branch_main seq_def
      py_get_def repository_link_def catch_def Let_def py_last_def truncated_def py_str_def
      str_of_nat_1 Embed_def add_field_def set_author_def set_footer_def set_timestamp_def
      lit_append [symmetric])

lemma push_timestamp: "create_push_embed lib t p = Inr e \<Longrightarrow> timestamp e = Some t"
  by (auto simp: create_push_embed_def seq_Inr_iff Let_def set_timestamp_def split: if_splits)

lemma pull_request_timestamp:
  "create_pull_request_embed lib t p = Inr e \<Longrightarrow> timestamp e = Some t"
  by (auto simp: create_pull_request_embed_def seq_Inr_iff Let_def set_timestamp_def
      split: if_splits)

lemma issue_timestamp: "create_issue_embed lib t p = Inr e \<Longrightarrow> timestamp e = Some t"
  by (auto simp: create_issue_embed_def seq_Inr_iff Let_def set_timestamp_def split: if_splits)

lemma release_timestamp: "create_release_embed lib t p = Inr e \<Longrightarrow> timestamp e = Some t"
  by (auto simp: create_release_embed_def seq_Inr_iff Let_def set_timestamp_def
      split: if_splits)

lemma create_timestamp: "create_create_embed lib t p = Inr e \<Longrightarrow> timestamp e = Some t"
  by (auto simp: create_create_embed_def seq_Inr_iff Let_def set_timestamp_def)

lemma delete_timestamp: "create_delete_embed lib t p = Inr e \<Longrightarrow> timestamp e = Some t"
  by (auto simp: create_delete_embed_def seq_Inr_iff Let_def set_timestamp_def)

lemma render_timestamp:
  "create_event_embed lib t ev p = Some e \<Longrightarrow> timestamp e = Some t"
  by (auto simp: create_event_embed_def catch_Some_iff push_timestamp pull_request_timestamp
      issue_timestamp release_timestamp create_timestamp delete_timestamp split: if_splits)

text \<open>
  C4, as the code has it. Two renderings of the same event type and payload, made at
  the clock readings \<open>t1\<close> and \<open>t2\<close>, both fail or both succeed, and then agree on title,
  description, color, url, fields, author and footer; the timestamp of each is the clock
  reading at which it was made.
\<close>

theorem render_same_but_clock:
  "(create_event_embed lib t1 ev p = None) = (create_event_embed lib t2 ev p = None)
   \<and> (create_event_embed lib t1 ev p = Some e1 \<and> create_event_embed lib t2 ev p = Some e2 \<longrightarrow>
        title e1 = title e2 \<and> description e1 = description e2 \<and> color e1 = color e2
      \<and> url e1 = url e2 \<and> embed_fields e1 = embed_fields e2 \<and> author e1 = author e2
      \<and> footer e1 = footer e2 \<and> timestamp e1 = Some t1 \<and> timestamp e2 = Some t2)"
proof -
  have c: "map_option (\<lambda>e. e\<lparr>timestamp := None\<rparr>) (create_event_embed lib t1 ev p) =
           map_option (\<lambda>e. e\<lparr>timestamp := None\<rparr>) (create_event_embed lib t2 ev p)"
    by (rule render_clock)
  have none: "(create_event_embed lib t1 ev p = None) = (create_event_embed lib t2 ev p = None)"
    using c by (metis map_option_is_None)
  have same: "title e1 = title e2 \<and> description e1 = description e2 \<and> color e1 = color e2
      \<and> url e1 = url e2 \<and> embed_fields e1 = embed_fields e2 \<and> author e1 = author e2
      \<and> footer e1 = footer e2 \<and> timestamp e1 = Some t1 \<and> timestamp e2 = Some t2"
    if h1: "create_event_embed lib t1 ev p = Some e1"
      and h2: "create_event_embed lib t2 ev p = Some e2"
  proof -
    from c h1 h2 have "e1\<lparr>timestamp := None\<rparr> = e2\<lparr>timestamp := None\<rparr>" by simp
    then have "title e1 = title e2 \<and> description e1 = description e2 \<and> color e1 = color e2
      \<and> url e1 = url e2 \<and> embed_fields e1 = embed_fields e2 \<and> author e1 = author e2
      \<and> footer e1 = footer e2"
      by (cases e1, cases e2) simp
    with render_timestamp [OF h1] render_timestamp [OF h2] show ?thesis by simp
  qed
  from none same show ?thesis by blast
qed

theorem render_same_but_clock_witness:
  "create_event_embed plain_lib 0 (lit ''push'') spec_push_payload \<noteq> None
   \<and> title (the (create_event_embed plain_lib 0 (lit ''push'') spec_push_payload)) =
       title (the (create_event_embed plain_lib 1 (lit ''push'') spec_push_payload))
   \<and> embed_fields (the (create_event_embed plain_lib 0 (lit ''push'') spec_push_payload)) =
       embed_fields (the (create_event_embed plain_lib 1 (lit ''push'') spec_push_payload))
   \<and> timestamp (the (create_event_embed plain_lib 0 (lit ''push'') spec_push_payload)) = Some 0
   \<and> timestamp (the (create_event_embed plain_lib 1 (lit ''push'') spec_push_payload)) = Some 1"
proof -
  have h0: "create_event_embed plain_lib 0 (lit ''push'') spec_push_payload =
              Some (the (create_event_embed plain_lib 0 (lit ''push'') spec_push_payload))"
    by (simp add: push_scenario)
  have h1: "create_event_embed plain_lib 1 (lit ''push'') spec_push_payload =
              Some (the (create_event_embed plain_lib 1 (lit ''push'') spec_push_payload))"
    by (simp add: push_scenario)
  have "create_event_embed plain_lib 0 (lit ''push'') spec_push_payload \<noteq> None"
    by (simp add: push_scenario)
  with h0 h1 render_same_but_clock [of plain_lib 0 "lit ''push''" spec_push_payload 1
      "the (create_event_embed plain_lib 0 (lit ''push'') spec_push_payload)"
      "the (create_event_embed plain_lib 1 (lit ''push'') spec_push_payload)"]
  show ?thesis by blast
qed

text \<open>
  C4 as stated fails on the timestamp: the same payload rendered at two clock readings
  gives two different timestamps.
\<close>

theorem render_timestamp_counterexample:
  "map_option timestamp (create_event_embed plain_lib 0 (lit ''push'') spec_push_payload) =
     Some (Some 0)
   \<and> map_option timestamp (create_event_embed plain_lib 1 (lit ''push'') spec_push_payload) =
     Some (Some 1)
   \<and> create_event_embed plain_lib 0 (lit ''push'') spec_push_payload \<noteq>
     create_event_embed plain_lib 1 (lit ''push'') spec_push_payload"
  by (simp add: push_scenario)

subsection \<open>Truncated descriptions\<close>

text \<open>
  C5. For a pull request (and likewise a release) that renders, with a non-empty body
  string: a body of more than 500 characters gives a Description field of exactly 500
  characters, the first 497 of the body and then \<open>...\<close>; a body of at most 500 characters
  is the field's value unchanged.
\<close>

theorem description_truncated:
  assumes "ev = lit ''pull_request'' \<or> ev = lit ''release''"
    and "create_event_embed lib now ev payload = Some e"
    and "py_get payload ev (JDict []) = Inr obj"
    and "py_get obj (lit ''body'') (JStr []) = Inr (JStr body)"
    and "body \<noteq> []"
  shows "field_named (lit ''Description'') e =
           Some (JStr (if 500 < length body then take 497 body @ lit ''...'' else body))
       \<and> length (if 500 < length body then take 497 body @ lit ''...'' else body) =
           min 500 (length body)"
proof -
  have "field_named (lit ''Description'') e =
          Some (JStr (if 500 < length body then take 497 body @ lit ''...'' else body))"
    using assms(1)
  proof
    assume ev: "ev = lit ''pull_request''"
    with assms(2) have "create_pull_request_embed lib now payload = Inr e"
      by (simp add: render_pull_request catch_Some_iff)
    from pr_description [OF this] assms(3-5) ev show ?thesis by simp
  next
    assume ev: "ev = lit ''release''"
    with assms(2) have "create_release_embed lib now payload = Inr e"
      by (simp add: render_release catch_Some_iff)
    from release_description [OF this] assms(3-5) ev show ?thesis by simp
  qed
  then show ?thesis by simp
qed

lemma long_body_renders:
  "\<exists>e. create_event_embed plain_lib 0 (lit ''pull_request'') long_body_payload = Some e"
  by (simp add: render_pull_request create_pull_request_embed_def long_body_payload_def
      seq_def py_get_def repository_link_def catch_def Let_def truncated_def table_get_def
      pr_color_map_def py_title_def plain_lib_def py_slice_to_def py_add_dots_def)

theorem description_truncated_witness:
  "field_named (lit ''Description'')
     (the (create_event_embed plain_lib 0 (lit ''pull_request'') long_body_payload)) =
     Some (JStr (replicate 497 120 @ lit ''...''))
   \<and> length (replicate 497 120 @ lit ''...'') = (500::nat)"
proof -
  from long_body_renders have r:
    "create_event_embed plain_lib 0 (lit ''pull_request'') long_body_payload =
       Some (the (create_event_embed plain_lib 0 (lit ''pull_request'') long_body_payload))"
    by auto
  have o: "py_get long_body_payload (lit ''pull_request'') (JDict []) =
             Inr (JDict [(lit ''body'', JStr (replicate 600 120))])"
    by (simp add: long_body_payload_def py_get_def)
  have b: "py_get (JDict [(lit ''body'', JStr (replicate 600 120))]) (lit ''body'') (JStr []) =
             Inr (JStr (replicate 600 120))"
    by (simp add: py_get_def)
  have n: "replicate 600 (120::nat) \<noteq> []" by simp
  from description_truncated [OF disjI1 [OF refl] r o b n] show ?thesis by simp
qed

subsection \<open>Labels\<close>

text \<open>
  C6. For an issue that renders, with a non-empty list of labels: the Labels field is the
  \<open>", "\<close>-join of the names of the first five labels at most, in the order of the list,
  where the name of a label is what \<open>label.get("name", "")\<close> gives.
\<close>

theorem labels_first_five:
  assumes "create_event_embed lib now (lit ''issues'') payload = Some e"
    and "py_get payload (lit ''issue'') (JDict []) = Inr issue"
    and "py_get issue (lit ''labels'') (JList []) = Inr (JList ls)"
    and "ls \<noteq> []"
  shows "\<exists>names.
           length names = min 5 (length ls)
         \<and> map_err (\<lambda>label. py_get label (lit ''name'') (JStr [])) (take 5 ls) =
             Inr (map JStr names)
         \<and> field_named (lit ''Labels'') e = Some (JStr (join (lit '', '') names))"
proof -
  from assms(1) have "create_issue_embed lib now payload = Inr e"
    by (simp add: render_issues catch_Some_iff)
  from issue_labels [OF this assms(2,3)] assms(4) obtain names where
    n: "map_err (\<lambda>label. py_get label (lit ''name'') (JStr [])) (take 5 ls) =
          Inr (map JStr names)"
    and f: "field_named (lit ''Labels'') e = Some (JStr (join (lit '', '') names))"
    by auto
  from map_err_length [OF n] have "length names = min 5 (length ls)"
    by (simp add: min.commute)
  with n f show ?thesis by blast
qed

lemma eight_labels_render:
  "\<exists>e. create_event_embed plain_lib 0 (lit ''issues'') eight_labels_payload = Some e"
  by (simp add: render_issues create_issue_embed_def eight_labels_payload_def eight_labels_def
      seq_def py_get_def repository_link_def catch_def Let_def table_get_def
      issue_color_map_def py_title_def plain_lib_def py_slice_to_def py_iter_def py_join_def)

lemma first_five_names:
  "map_err (\<lambda>label. py_get label (lit ''name'') (JStr [])) (take 5 eight_labels) =
     Inr (map JStr [lit ''l1'', lit ''l2'', lit ''l3'', lit ''l4'', lit ''l5''])"
  by (simp add: eight_labels_def py_get_def seq_def)

theorem labels_first_five_witness:
  "eight_labels \<noteq> [] \<and> length eight_labels = 8
   \<and> field_named (lit ''Labels'')
       (the (create_event_embed plain_lib 0 (lit ''issues'') eight_labels_payload)) =
       Some (JStr (lit ''l1, l2, l3, l4, l5''))"
proof -
  from eight_labels_render have r:
    "create_event_embed plain_lib 0 (lit ''issues'') eight_labels_payload =
       Some (the (create_event_embed plain_lib 0 (lit ''issues'') eight_labels_payload))"
    by auto
  have i: "py_get eight_labels_payload (lit ''issue'') (JDict []) =
             Inr (JDict [(lit ''labels'', JList eight_labels)])"
    by (simp add: eight_labels_payload_def py_get_def)
  have l: "py_get (JDict [(lit ''labels'', JList eight_labels)]) (lit ''labels'') (JList []) =
             Inr (JList eight_labels)"
    by (simp add: py_get_def)
  have n: "eight_labels \<noteq> []" by (simp add: eight_labels_def)
  from labels_first_five [OF r i l n] obtain names where
    m: "map_err (\<lambda>label. py_get label (lit ''name'') (JStr [])) (take 5 eight_labels) =
          Inr (map JStr names)"
    and f: "field_named (lit ''Labels'')
              (the (create_event_embed plain_lib 0 (lit ''issues'') eight_labels_payload)) =
            Some (JStr (join (lit '', '') names))"
    by blast
  from m first_five_names
  have "map JStr names = map JStr [lit ''l1'', lit ''l2'', lit ''l3'', lit ''l4'', lit ''l5'']"
    by simp
  then have "names = [lit ''l1'', lit ''l2'', lit ''l3'', lit ''l4'', lit ''l5'']"
    by (auto simp: map_eq_Cons_conv)
  with f n show ?thesis by (simp add: eight_labels_def lit_append [symmetric])
qed

subsection \<open>Absent and empty fields\<close>

lemma seq_Inr: "seq (Inr v) f = f v"
  by (simp add: seq_def)

text \<open>
  The body may be any JSON value. The field is added when the body is true for
  \<open>if body:\<close> and \<open>len(body)\<close> exists, which leaves the non-empty strings, lists and
  dicts; for any other true value the renderer raises.
\<close>

lemma pr_description_any:
  assumes "create_pull_request_embed lib now payload = Inr e"
    and "py_get payload (lit ''pull_request'') (JDict []) = Inr pr"
    and "py_get pr (lit ''body'') (JStr []) = Inr b"
  shows "(field_named (lit ''Description'') e \<noteq> None) =
           (case b of JStr s \<Rightarrow> s \<noteq> [] | JList xs \<Rightarrow> xs \<noteq> [] | JDict kvs \<Rightarrow> kvs \<noteq> []
            | _ \<Rightarrow> False)"
  using assms
  by (cases b)
     (auto simp: create_pull_request_embed_def seq_Inr_iff Let_def truncated_def
        field_named_def lit_def add_field_def set_author_def set_footer_def set_timestamp_def
        Embed_def split: if_splits)

lemma release_description_any:
  assumes "create_release_embed lib now payload = Inr e"
    and "py_get payload (lit ''release'') (JDict []) = Inr release"
    and "py_get release (lit ''body'') (JStr []) = Inr b"
  shows "(field_named (lit ''Description'') e \<noteq> None) =
           (case b of JStr s \<Rightarrow> s \<noteq> [] | JList xs \<Rightarrow> xs \<noteq> [] | JDict kvs \<Rightarrow> kvs \<noteq> []
            | _ \<Rightarrow> False)"
  using assms
  by (cases b)
     (auto simp: create_release_embed_def seq_Inr_iff Let_def truncated_def
        field_named_def lit_def add_field_def set_author_def set_footer_def set_timestamp_def
        Embed_def split: if_splits)

text \<open>
  The labels may be any JSON value too, but only a list gets through the comprehension:
  the characters of a string have no \<open>get\<close>, and nothing else that is true can be sliced.
\<close>

lemma labels_of_str_fail:
  "s \<noteq> [] \<Longrightarrow>
   map_err (\<lambda>label. py_get label k d) (map (\<lambda>c. JStr [c]) (take 5 s)) = Inl AttributeError"
  by (cases s) (simp_all add: py_get_def seq_def)

lemma issue_labels_any:
  assumes "create_issue_embed lib now payload = Inr e"
    and "py_get payload (lit ''issue'') (JDict []) = Inr issue"
    and "py_get issue (lit ''labels'') (JList []) = Inr l"
  shows "(field_named (lit ''Labels'') e \<noteq> None) =
           (case l of JList ls \<Rightarrow> ls \<noteq> [] | _ \<Rightarrow> False)"
  using assms
  by (cases l)
     (auto simp: create_issue_embed_def seq_Inr_iff Let_def field_named_def py_slice_to_def
        py_iter_def labels_of_str_fail lit_def add_field_def set_author_def set_footer_def
        set_timestamp_def Embed_def split: if_splits)

text \<open>
  Setting an absent body to the empty string, or absent labels to the empty list, changes
  nothing: \<open>AList.update\<close> is the dict with one key set.
\<close>

lemma pr_body_default:
  assumes "map_of kvs (lit ''pull_request'') = Some (JDict obj)"
    and "map_of obj (lit ''body'') = None"
  shows "create_pull_request_embed lib now
           (JDict (AList.update (lit ''pull_request'')
                     (JDict (AList.update (lit ''body'') (JStr []) obj)) kvs)) =
         create_pull_request_embed lib now (JDict kvs)"
  using assms by (simp add: create_pull_request_embed_def py_get_def seq_Inr update_conv')

lemma release_body_default:
  assumes "map_of kvs (lit ''release'') = Some (JDict obj)"
    and "map_of obj (lit ''body'') = None"
  shows "create_release_embed lib now
           (JDict (AList.update (lit ''release'')
                     (JDict (AList.update (lit ''body'') (JStr []) obj)) kvs)) =
         create_release_embed lib now (JDict kvs)"
  using assms by (simp add: create_release_embed_def py_get_def seq_Inr update_conv')

lemma issue_labels_default:
  assumes "map_of kvs (lit ''issue'') = Some (JDict obj)"
    and "map_of obj (lit ''labels'') = None"
  shows "create_issue_embed lib now
           (JDict (AList.update (lit ''issue'')
                     (JDict (AList.update (lit ''labels'') (JList []) obj)) kvs)) =
         create_issue_embed lib now (JDict kvs)"
  using assms by (simp add: create_issue_embed_def py_get_def seq_Inr update_conv')

text \<open>
  C10, as the code has it. For a pull request or a release that renders, the Description
  field exists exactly when the body is a non-empty string, a non-empty list or a
  non-empty dict: an absent body, \<open>null\<close>, the empty string and every other false value
  give no field, and the type of a true value is not checked. For an issue that renders,
  the Labels field exists exactly when the labels are a non-empty list. A payload in which
  the absent body is set to the empty string (the absent labels to the empty list) renders
  as the payload without it does.
\<close>

theorem optional_field_present_iff:
  "((ev = lit ''pull_request'' \<or> ev = lit ''release'')
      \<and> create_event_embed lib now ev payload = Some e
      \<and> py_get payload ev (JDict []) = Inr obj
      \<and> py_get obj (lit ''body'') (JStr []) = Inr b \<longrightarrow>
        (field_named (lit ''Description'') e \<noteq> None) =
          (case b of JStr s \<Rightarrow> s \<noteq> [] | JList xs \<Rightarrow> xs \<noteq> [] | JDict fs \<Rightarrow> fs \<noteq> []
           | _ \<Rightarrow> False))
   \<and> (create_event_embed lib now (lit ''issues'') payload = Some e
      \<and> py_get payload (lit ''issue'') (JDict []) = Inr obj
      \<and> py_get obj (lit ''labels'') (JList []) = Inr l \<longrightarrow>
        (field_named (lit ''Labels'') e \<noteq> None) =
          (case l of JList ls \<Rightarrow> ls \<noteq> [] | _ \<Rightarrow> False))
   \<and> ((ev = lit ''pull_request'' \<or> ev = lit ''release'')
      \<and> map_of kvs ev = Some (JDict fs) \<and> map_of fs (lit ''body'') = None \<longrightarrow>
        create_event_embed lib now ev
          (JDict (AList.update ev (JDict (AList.update (lit ''body'') (JStr []) fs)) kvs)) =
        create_event_embed lib now ev (JDict kvs))
   \<and> (map_of kvs (lit ''issue'') = Some (JDict fs) \<and> map_of fs (lit ''labels'') = None \<longrightarrow>
        create_event_embed lib now (lit ''issues'')
          (JDict (AList.update (lit ''issue'')
                    (JDict (AList.update (lit ''labels'') (JList []) fs)) kvs)) =
        create_event_embed lib now (lit ''issues'') (JDict kvs))"
proof -
  have d: "(field_named (lit ''Description'') e \<noteq> None) =
             (case b of JStr s \<Rightarrow> s \<noteq> [] | JList xs \<Rightarrow> xs \<noteq> [] | JDict fs \<Rightarrow> fs \<noteq> []
              | _ \<Rightarrow> False)"
    if "ev = lit ''pull_request'' \<or> ev = lit ''release''"
      and r: "create_event_embed lib now ev payload = Some e"
      and o: "py_get payload ev (JDict []) = Inr obj"
      and b: "py_get obj (lit ''body'') (JStr []) = Inr b"
    using that(1)
  proof
    assume ev: "ev = lit ''pull_request''"
    with r have "create_pull_request_embed lib now payload = Inr e"
      by (simp add: render_pull_request catch_Some_iff)
    from pr_description_any [OF this] o b ev show ?thesis by simp
  next
    assume ev: "ev = lit ''release''"
    with r have "create_release_embed lib now payload = Inr e"
      by (simp add: render_release catch_Some_iff)
    from release_description_any [OF this] o b ev show ?thesis by simp
  qed
  have l: "(field_named (lit ''Labels'') e \<noteq> None) =
             (case l of JList ls \<Rightarrow> ls \<noteq> [] | _ \<Rightarrow> False)"
    if r: "create_event_embed lib now (lit ''issues'') payload = Some e"
      and o: "py_get payload (lit ''issue'') (JDict []) = Inr obj"
      and b: "py_get obj (lit ''labels'') (JList []) = Inr l"
  proof -
    from r have "create_issue_embed lib now payload = Inr e"
      by (simp add: render_issues catch_Some_iff)
    from issue_labels_any [OF this o b] show ?thesis .
  qed
  have a: "create_event_embed lib now ev
             (JDict (AList.update ev (JDict (AList.update (lit ''body'') (JStr []) fs)) kvs)) =
           create_event_embed lib now ev (JDict kvs)"
    if "ev = lit ''pull_request'' \<or> ev = lit ''release''"
      and "map_of kvs ev = Some (JDict fs)" and "map_of fs (lit ''body'') = None"
    using that
    by (auto simp: render_pull_request render_release pr_body_default release_body_default)
  have i: "create_event_embed lib now (lit ''issues'')
             (JDict (AList.update (lit ''issue'')
                       (JDict (AList.update (lit ''labels'') (JList []) fs)) kvs)) =
           create_event_embed lib now (lit ''issues'') (JDict kvs)"
    if "map_of kvs (lit ''issue'') = Some (JDict fs)" and "map_of fs (lit ''labels'') = None"
    using that by (simp add: render_issues issue_labels_default)
  from d l a i show ?thesis by blast
qed

lemma release_notes_renders:
  "\<exists>e. create_event_embed plain_lib 0 (lit ''release'') release_notes_payload = Some e"
  by (simp add: render_release create_release_embed_def release_notes_payload_def
      seq_def py_get_def repository_link_def catch_def Let_def truncated_def py_title_def
      plain_lib_def)

lemma bare_release_renders:
  "\<exists>e. create_event_embed plain_lib 0 (lit ''release'') bare_release_payload = Some e"
  by (simp add: render_release create_release_embed_def bare_release_payload_def
      seq_def py_get_def repository_link_def catch_def Let_def py_title_def plain_lib_def)

lemma bare_pr_renders:
  "\<exists>e. create_event_embed plain_lib 0 (lit ''pull_request'') bare_pr_payload = Some e"
  by (simp add: render_pull_request create_pull_request_embed_def bare_pr_payload_def
      seq_def py_get_def repository_link_def catch_def Let_def table_get_def
      pr_color_map_def py_title_def plain_lib_def)

text \<open>
  The worked example: the release with the body \<open>notes\<close> has a Description field, the
  release and the pull request without a body have none, the issue with eight labels
  has a Labels field, and \<open>{"release": {"body": ""}}\<close> renders as \<open>{"release": {}}\<close> does.
\<close>

theorem optional_field_present_iff_witness:
  "create_event_embed plain_lib 0 (lit ''release'') release_notes_payload \<noteq> None
   \<and> field_named (lit ''Description'')
       (the (create_event_embed plain_lib 0 (lit ''release'') release_notes_payload)) \<noteq> None
   \<and> create_event_embed plain_lib 0 (lit ''release'') bare_release_payload \<noteq> None
   \<and> field_named (lit ''Description'')
       (the (create_event_embed plain_lib 0 (lit ''release'') bare_release_payload)) = None
   \<and> create_event_embed plain_lib 0 (lit ''pull_request'') bare_pr_payload \<noteq> None
   \<and> field_named (lit ''Description'')
       (the (create_event_embed plain_lib 0 (lit ''pull_request'') bare_pr_payload)) = None
   \<and> create_event_embed plain_lib 0 (lit ''issues'') eight_labels_payload \<noteq> None
   \<and> field_named (lit ''Labels'')
       (the (create_event_embed plain_lib 0 (lit ''issues'') eight_labels_payload)) \<noteq> None
   \<and> create_event_embed plain_lib 0 (lit ''release'')
       (JDict [(lit ''release'', JDict [(lit ''body'', JStr [])])]) =
     create_event_embed plain_lib 0 (lit ''release'') (JDict [(lit ''release'', JDict [])])
   \<and> create_event_embed plain_lib 0 (lit ''issues'')
       (JDict [(lit ''issue'', JDict [(lit ''labels'', JList [])])]) =
     create_event_embed plain_lib 0 (lit ''issues'') (JDict [(lit ''issue'', JDict [])])"
proof -
  let ?rn = "create_event_embed plain_lib 0 (lit ''release'') release_notes_payload"
  let ?rb = "create_event_embed plain_lib 0 (lit ''release'') bare_release_payload"
  let ?pb = "create_event_embed plain_lib 0 (lit ''pull_request'') bare_pr_payload"
  let ?il = "create_event_embed plain_lib 0 (lit ''issues'') eight_labels_payload"
  from release_notes_renders have rn: "?rn = Some (the ?rn)" by auto
  from bare_release_renders have rb: "?rb = Some (the ?rb)" by auto
  from bare_pr_renders have pb: "?pb = Some (the ?pb)" by auto
  from eight_labels_render have il: "?il = Some (the ?il)" by auto
  have n1: "?rn \<noteq> None" using release_notes_renders by auto
  have n2: "?rb \<noteq> None" using bare_release_renders by auto
  have n3: "?pb \<noteq> None" using bare_pr_renders by auto
  have n4: "?il \<noteq> None" using eight_labels_render by auto
  have g1: "py_get release_notes_payload (lit ''release'') (JDict []) =
              Inr (JDict [(lit ''tag_name'', JStr (lit ''v1'')),
                          (lit ''body'', JStr (lit ''notes''))])"
    by (simp add: release_notes_payload_def py_get_def)
  have g2: "py_get (JDict [(lit ''tag_name'', JStr (lit ''v1'')),
                           (lit ''body'', JStr (lit ''notes''))])
              (lit ''body'') (JStr []) = Inr (JStr (lit ''notes''))"
    by (simp add: py_get_def)
  have g3: "py_get bare_release_payload (lit ''release'') (JDict []) = Inr (JDict [])"
    by (simp add: bare_release_payload_def py_get_def)
  have g4: "py_get bare_pr_payload (lit ''pull_request'') (JDict []) = Inr (JDict [])"
    by (simp add: bare_pr_payload_def py_get_def)
  have g5: "py_get (JDict []) (lit ''body'') (JStr []) = Inr (JStr [])"
    by (simp add: py_get_def)
  have g6: "py_get eight_labels_payload (lit ''issue'') (JDict []) =
              Inr (JDict [(lit ''labels'', JList eight_labels)])"
    by (simp add: eight_labels_payload_def py_get_def)
  have g7: "py_get (JDict [(lit ''labels'', JList eight_labels)]) (lit ''labels'') (JList []) =
              Inr (JList eight_labels)"
    by (simp add: py_get_def)
  have e8: "eight_labels \<noteq> []" by (simp add: eight_labels_def)
  have f1: "field_named (lit ''Description'') (the ?rn) \<noteq> None"
    using optional_field_present_iff [of "lit ''release''" plain_lib 0 release_notes_payload
        "the ?rn" _ "JStr (lit ''notes'')"] rn g1 g2
    by simp
  have f2: "field_named (lit ''Description'') (the ?rb) = None"
    using optional_field_present_iff [of "lit ''release''" plain_lib 0 bare_release_payload
        "the ?rb" "JDict []" "JStr []"] rb g3 g5
    by simp
  have f3: "field_named (lit ''Description'') (the ?pb) = None"
    using optional_field_present_iff [of "lit ''pull_request''" plain_lib 0 bare_pr_payload
        "the ?pb" "JDict []" "JStr []"] pb g4 g5
    by simp
  have f4: "field_named (lit ''Labels'') (the ?il) \<noteq> None"
    using optional_field_present_iff [of _ plain_lib 0 eight_labels_payload
        "the ?il" _ _ "JList eight_labels"] il g6 g7 e8
    by simp
  have q1: "create_event_embed plain_lib 0 (lit ''release'')
       (JDict [(lit ''release'', JDict [(lit ''body'', JStr [])])]) =
     create_event_embed plain_lib 0 (lit ''release'') (JDict [(lit ''release'', JDict [])])"
    using optional_field_present_iff [of "lit ''release''" plain_lib 0 _ _ _ _ _
        "[(lit ''release'', JDict [])]" "[]"]
    by simp
  have q2: "create_event_embed plain_lib 0 (lit ''issues'')
       (JDict [(lit ''issue'', JDict [(lit ''labels'', JList [])])]) =
     create_event_embed plain_lib 0 (lit ''issues'') (JDict [(lit ''issue'', JDict [])])"
    using optional_field_present_iff [of _ plain_lib 0 _ _ _ _ _
        "[(lit ''issue'', JDict [])]" "[]"]
    by simp
  from n1 f1 n2 f2 n3 f3 n4 f4 q1 q2 show ?thesis by blast
qed

text \<open>
  C10 as stated fails for a body that is not a string: the pull request with the body
  \<open>[1]\<close> renders, and its Description field holds the list.
\<close>

theorem description_of_list_body_counterexample:
  "py_get list_body_payload (lit ''pull_request'') (JDict []) =
     Inr (JDict [(lit ''body'', JList [JInt 1])])
   \<and> map_option (field_named (lit ''Description''))
       (create_event_embed plain_lib 0 (lit ''pull_request'') list_body_payload) =
     Some (Some (JList [JInt 1]))"
  unfolding render_pull_request
  by (simp add: create_pull_request_embed_def list_body_payload_def
      seq_def py_get_def repository_link_def catch_def Let_def truncated_def table_get_def
      pr_color_map_def py_title_def plain_lib_def field_named_def lit_def add_field_def
      set_author_def set_footer_def set_timestamp_def Embed_def)

subsection \<open>Unsupported events and failing renderers\<close>

text \<open>
  C8. For an event type outside the six supported ones \<open>create_event_embed\<close> gives
  \<open>None\<close>, and the background task then sends nothing. The endpoint answers 200 for every
  event type once the signature is accepted and the body decodes. An exception raised by
  any of the six renderers is turned into \<open>None\<close>.
\<close>

theorem unsupported_event_is_success:
  "(event_type \<notin> set supported_events \<longrightarrow>
        create_event_embed lib now event_type payload = None
      \<and> process_github_event lib now self event_type payload = (Returned (), self))
   \<and> (verify_github_signature secret (raw_body req)
          (case x_hub_signature_256 req of None \<Rightarrow> [] | Some h \<Rightarrow> h)
      \<and> loads (raw_body req) = Decoded payload \<longrightarrow>
        status_code (fst (github_webhook secret loads req background_tasks)) = 200)
   \<and> (create_push_embed lib now payload = Inl err \<longrightarrow>
        create_event_embed lib now (lit ''push'') payload = None)
   \<and> (create_pull_request_embed lib now payload = Inl err \<longrightarrow>
        create_event_embed lib now (lit ''pull_request'') payload = None)
   \<and> (create_issue_embed lib now payload = Inl err \<longrightarrow>
        create_event_embed lib now (lit ''issues'') payload = None)
   \<and> (create_release_embed lib now payload = Inl err \<longrightarrow>
        create_event_embed lib now (lit ''release'') payload = None)
   \<and> (create_create_embed lib now payload = Inl err \<longrightarrow>
        create_event_embed lib now (lit ''create'') payload = None)
   \<and> (create_delete_embed lib now payload = Inl err \<longrightarrow>
        create_event_embed lib now (lit ''delete'') payload = None)"
  by (simp add: render_unsupported process_github_event_def github_webhook_def Let_def
      render_push render_pull_request render_issues render_release render_create
      render_delete catch_Inl)

lemma push_not_a_dict: "create_push_embed plain_lib 0 (JList []) = Inl AttributeError"
  by (simp add: create_push_embed_def py_get_def seq_def)

lemma unknown_event: "lit ''unknown_event'' \<notin> set supported_events"
  by (simp add: supported_events_def)

lemma signed_by_a:
  "verify_github_signature (lit ''a'') [1, 2]
     (lit ''sha256='' @ hexdigest (hmac_sha256 [0x61] [1, 2]))"
  by (simp add: verify_signed utf8_a)

theorem unsupported_event_is_success_witness:
  "lit ''unknown_event'' \<notin> set supported_events
   \<and> create_event_embed plain_lib 0 (lit ''unknown_event'') spec_push_payload = None
   \<and> process_github_event plain_lib 0 \<lparr>target_channel = None\<rparr> (lit ''unknown_event'')
        spec_push_payload = (Returned (), \<lparr>target_channel = None\<rparr>)
   \<and> status_code (fst (github_webhook (lit ''a'') (\<lambda>b. Decoded spec_push_payload)
        \<lparr>raw_body = [1, 2],
         x_hub_signature_256 = Some (lit ''sha256='' @ hexdigest (hmac_sha256 [0x61] [1, 2])),
         x_github_event = Some (lit ''unknown_event'')\<rparr> [])) = 200
   \<and> create_push_embed plain_lib 0 (JList []) = Inl AttributeError
   \<and> create_event_embed plain_lib 0 (lit ''push'') (JList []) = None"
  using unknown_event signed_by_a push_not_a_dict
    unsupported_event_is_success [of "lit ''unknown_event''" plain_lib 0 spec_push_payload
      "\<lparr>target_channel = None\<rparr>" "lit ''a''"
      "\<lparr>raw_body = [1, 2],
        x_hub_signature_256 = Some (lit ''sha256='' @ hexdigest (hmac_sha256 [0x61] [1, 2])),
        x_github_event = Some (lit ''unknown_event'')\<rparr>"
      "\<lambda>b. Decoded spec_push_payload" "[]" AttributeError]
    unsupported_event_is_success [of "lit ''unknown_event''" plain_lib 0 "JList []"
      "\<lparr>target_channel = None\<rparr>" "lit ''a''"
      "\<lparr>raw_body = [1, 2],
        x_hub_signature_256 = Some (lit ''sha256='' @ hexdigest (hmac_sha256 [0x61] [1, 2])),
        x_github_event = Some (lit ''unknown_event'')\<rparr>"
      "\<lambda>b. Decoded (JList [])" "[]" AttributeError]
  by simp

end
